theory Spec2Isabelle
  imports Complex_Main "HOL-Library.Char_ord" "HOL-Library.List_Lexorder"
    "HOL-Library.Product_Lexorder" "HOL-Library.Multiset" "HOL-Library.Log_Nat"
begin

section \<open>The store of \<^verbatim>\<open>database_v5.py\<close>\<close>

text \<open>
  The SQLite schema of \<^verbatim>\<open>FinanceSystemV5.init_database\<close>, one record per table row and one
  list per table, in insertion (rowid) order. Only the columns that the modelled functions
  read or write are kept; the others (currency, address, created_at, is_visible, ...) are
  never read by them.

  \<^item> \<^verbatim>\<open>INTEGER\<close> keys and Python \<^verbatim>\<open>int\<close>s are \<^typ>\<open>int\<close>.
  \<^item> \<^verbatim>\<open>REAL\<close> columns and Python \<^verbatim>\<open>float\<close>s are \<^typ>\<open>real\<close>, the value of the double.
    \<^verbatim>\<open>add_report_payment\<close> stores values that it computes by three operations on doubles,
    and each of them is rounded as the machine rounds it (\<open>round_double\<close> below). Where the
    code computes one expression and stores or returns it (\<^verbatim>\<open>update_report_cash\<close>, the sums
    and the balance of \<^verbatim>\<open>get_account_balance\<close>), the model has the expression itself.
  \<^item> A column that the code leaves or sets \<^verbatim>\<open>NULL\<close> is an \<^typ>\<open>'a option\<close>.
  \<^item> \<^verbatim>\<open>is_active\<close> is written as the default 1, as a Python \<^verbatim>\<open>bool\<close> or as 0, and read
    by \<^verbatim>\<open>is_active=1\<close>: a \<^typ>\<open>bool\<close>.
  \<^item> \<^verbatim>\<open>TEXT\<close> is \<^typ>\<open>string\<close>, compared bytewise as SQLite's BINARY collation and Python do
    on the ISO dates stored here.
  \<^item> Foreign keys are declared but never enforced (the connection does not switch
    \<^verbatim>\<open>PRAGMA foreign_keys\<close> on), so no insertion checks them.
\<close>

datatype error = IntegrityError | TypeError | ValueError

record account_row =
  acc_id :: int
  acc_name :: string
  acc_type :: string
  acc_is_active :: bool

record payment_method_row =
  pm_id :: int
  pm_name :: string
  pm_method_type :: string
  pm_default_account_id :: int
  pm_commission_percent :: real
  pm_is_active :: bool
  pm_display_order :: int

record location_row =
  loc_id :: int
  loc_name :: string
  loc_is_active :: bool

datatype report_status = Open | Closed | Verified

record daily_report_row =
  dr_id :: int
  dr_report_date :: string
  dr_location_id :: int
  dr_total_sales :: real
  dr_cash_expected :: "real option"
  dr_cash_actual :: "real option"
  dr_cash_difference :: "real option"
  dr_cash_breakdown :: "string option"
  dr_status :: report_status
  dr_created_by :: "string option"
  dr_closed_at :: "string option"

record report_payment_row =
  rp_id :: int
  rp_report_id :: int
  rp_payment_method_id :: int
  rp_account_id :: int
  rp_amount :: real
  rp_commission_amount :: real
  rp_net_amount :: real

text \<open>The tables \<^verbatim>\<open>non_sales_income\<close> and \<^verbatim>\<open>report_expenses\<close> have the same columns.\<close>

record line_row =
  ln_id :: int
  ln_report_id :: int
  ln_category_id :: "int option"
  ln_account_id :: int
  ln_amount :: real
  ln_description :: string

record db =
  accounts :: "account_row list"
  payment_methods :: "payment_method_row list"
  locations :: "location_row list"
  daily_reports :: "daily_report_row list"
  report_payments :: "report_payment_row list"
  non_sales_income :: "line_row list"
  report_expenses :: "line_row list"

definition init_database :: db where
  "init_database =
     \<lparr>accounts = [], payment_methods = [], locations = [], daily_reports = [],
      report_payments = [], non_sales_income = [], report_expenses = []\<rparr>"

text \<open>
  \<^verbatim>\<open>cursor.lastrowid\<close> of an \<^verbatim>\<open>AUTOINCREMENT\<close> key: one more than the largest key so far
  (the code never deletes a row), 1 in an empty table.
\<close>

definition next_id :: "int list \<Rightarrow> int" where
  "next_id ids = fold max ids 0 + 1"

text \<open>
  \<^verbatim>\<open>SELECT SUM(col)\<close>: \<^verbatim>\<open>NULL\<close> values are skipped, and the sum of no value is \<^verbatim>\<open>NULL\<close>.
\<close>

definition sql_sum :: "real option list \<Rightarrow> real option" where
  "sql_sum vs = (case List.map_filter id vs of [] \<Rightarrow> None | x # xs \<Rightarrow> Some (sum_list (x # xs)))"

text \<open>\<^verbatim>\<open>cursor.fetchone()[0] or 0\<close>: \<^verbatim>\<open>None\<close> and \<^verbatim>\<open>0.0\<close> are falsy.\<close>

definition or_0 :: "real option \<Rightarrow> real" where
  "or_0 v = (case v of None \<Rightarrow> 0 | Some x \<Rightarrow> if x = 0 then 0 else x)"

subsection \<open>Double precision\<close>

text \<open>
  The rounding of IEEE 754 binary64, to nearest with ties to even, applied to the exact
  result of an operation. \<open>exponent x\<close> is the integer \<open>e\<close> with \<open>2 powi e \<le> \<bar>x\<bar>\<close> and
  \<open>\<bar>x\<bar> < 2 powi (e + 1)\<close>. A double has 53 significant bits, so the doubles around \<open>x\<close> are
  the multiples of \<open>2 powi (e - 52)\<close>, and the multiples of \<open>2 powi (- 1074)\<close> below the normal
  range, where \<open>e < - 1022\<close>. The machine has an infinity where the rounded value would reach
  \<open>2 powi 1024\<close>; the model has none and keeps the finite value.
\<close>

definition exponent :: "real \<Rightarrow> int" where
  "exponent x =
     (if 1 \<le> \<bar>x\<bar> then bitlen \<lfloor>\<bar>x\<bar>\<rfloor> - 1 else - bitlen (\<lceil>1 / \<bar>x\<bar>\<rceil> - 1))"

definition round_half_even :: "real \<Rightarrow> int" where
  "round_half_even x =
     (let f = \<lfloor>x\<rfloor>; r = x - of_int f
      in if r < 1 / 2 then f else if 1 / 2 < r then f + 1 else if even f then f else f + 1)"

definition round_double :: "real \<Rightarrow> real" where
  "round_double x =
     (if x = 0 then 0
      else let ulp = 2 powi (max (exponent x) (- 1022) - 52)
           in of_int (round_half_even (x / ulp)) * ulp)"

subsection \<open>Accounts\<close>

text \<open>
  \<^verbatim>\<open>add_account(name, account_type, initial_balance=0)\<close>, the second definition in the class
  (it replaces the first). \<^verbatim>\<open>name\<close> is \<^verbatim>\<open>UNIQUE\<close> and \<^verbatim>\<open>account_type\<close> has a \<^verbatim>\<open>CHECK\<close>.
\<close>

definition add_account :: "db \<Rightarrow> string \<Rightarrow> string \<Rightarrow> error + (int \<times> db)" where
  "add_account d name account_type =
     (if name \<in> set (map acc_name (accounts d)) \<or> account_type \<notin> {''cash'', ''bank''}
      then Inl IntegrityError
      else let account_id = next_id (map acc_id (accounts d))
           in Inr (account_id,
                d\<lparr>accounts := accounts d @
                  [\<lparr>acc_id = account_id, acc_name = name, acc_type = account_type,
                    acc_is_active = True\<rparr>]\<rparr>))"

text \<open>\<^verbatim>\<open>update_account(account_id, name, account_type, is_active=True)\<close>, the second definition.\<close>

definition update_account :: "db \<Rightarrow> int \<Rightarrow> string \<Rightarrow> string \<Rightarrow> bool \<Rightarrow> error + db" where
  "update_account d account_id name account_type is_active =
     (if \<not> (\<exists>a \<in> set (accounts d). acc_id a = account_id) then Inr d
      else if name \<in> set (map acc_name (filter (\<lambda>a. acc_id a \<noteq> account_id) (accounts d)))
              \<or> account_type \<notin> {''cash'', ''bank''}
      then Inl IntegrityError
      else Inr (d\<lparr>accounts :=
             map (\<lambda>a. if acc_id a = account_id
                       then a\<lparr>acc_name := name, acc_type := account_type,
                              acc_is_active := is_active\<rparr>
                       else a) (accounts d)\<rparr>))"

definition delete_account :: "db \<Rightarrow> int \<Rightarrow> db" where
  "delete_account d account_id =
     d\<lparr>accounts := map (\<lambda>a. if acc_id a = account_id then a\<lparr>acc_is_active := False\<rparr> else a)
                        (accounts d)\<rparr>"

text \<open>
  \<^verbatim>\<open>get_accounts(account_type=None)\<close>: the active accounts, of one type when a non-empty
  type is given, with the \<^verbatim>\<open>ORDER BY\<close> of each query.
\<close>

definition get_accounts :: "db \<Rightarrow> string option \<Rightarrow> account_row list" where
  "get_accounts d account_type =
     (case account_type of
        Some t \<Rightarrow>
          if t \<noteq> [] then sort_key acc_name
                 (filter (\<lambda>a. acc_is_active a \<and> acc_type a = t) (accounts d))
          else sort_key (\<lambda>a. (acc_type a, acc_name a)) (filter acc_is_active (accounts d))
      | None \<Rightarrow> sort_key (\<lambda>a. (acc_type a, acc_name a)) (filter acc_is_active (accounts d)))"

subsection \<open>Line items\<close>

text \<open>\<^verbatim>\<open>add_non_sales_income\<close> and \<^verbatim>\<open>add_report_expense\<close>: plain insertions.\<close>

definition add_non_sales_income ::
  "db \<Rightarrow> int \<Rightarrow> int \<Rightarrow> real \<Rightarrow> int option \<Rightarrow> string \<Rightarrow> int \<times> db" where
  "add_non_sales_income d report_id account_id amount category_id description =
     (let i = next_id (map ln_id (non_sales_income d))
      in (i, d\<lparr>non_sales_income := non_sales_income d @
                 [\<lparr>ln_id = i, ln_report_id = report_id, ln_category_id = category_id,
                   ln_account_id = account_id, ln_amount = amount,
                   ln_description = description\<rparr>]\<rparr>))"

definition add_report_expense ::
  "db \<Rightarrow> int \<Rightarrow> int \<Rightarrow> real \<Rightarrow> int option \<Rightarrow> string \<Rightarrow> int \<times> db" where
  "add_report_expense d report_id account_id amount category_id description =
     (let i = next_id (map ln_id (report_expenses d))
      in (i, d\<lparr>report_expenses := report_expenses d @
                 [\<lparr>ln_id = i, ln_report_id = report_id, ln_category_id = category_id,
                   ln_account_id = account_id, ln_amount = amount,
                   ln_description = description\<rparr>]\<rparr>))"

subsection \<open>The balance engine\<close>

record balance_entry =
  b_name :: string
  b_type :: string
  b_balance :: real
  b_sales_income :: real
  b_non_sales_income :: real
  b_expenses :: real

text \<open>The body of the loop of \<^verbatim>\<open>get_account_balance\<close>, for one account.\<close>

definition account_balance :: "db \<Rightarrow> account_row \<Rightarrow> balance_entry" where
  "account_balance d acc =
     (if acc_type acc = ''cash'' then
        let balance = or_0 (sql_sum (map dr_cash_actual
                        (filter (\<lambda>r. dr_status r = Closed) (daily_reports d))));
            sales_income = balance;
            non_sales = 0;
            expenses = 0
        in \<lparr>b_name = acc_name acc, b_type = acc_type acc, b_balance = balance,
            b_sales_income = sales_income, b_non_sales_income = non_sales,
            b_expenses = expenses\<rparr>
      else
        let sales_income = or_0 (sql_sum (map (\<lambda>p. Some (rp_net_amount p))
                             (filter (\<lambda>p. rp_account_id p = acc_id acc) (report_payments d))));
            non_sales = or_0 (sql_sum (map (\<lambda>l. Some (ln_amount l))
                             (filter (\<lambda>l. ln_account_id l = acc_id acc) (non_sales_income d))));
            expenses = or_0 (sql_sum (map (\<lambda>l. Some (ln_amount l))
                             (filter (\<lambda>l. ln_account_id l = acc_id acc) (report_expenses d))));
            balance = sales_income + non_sales - expenses
        in \<lparr>b_name = acc_name acc, b_type = acc_type acc, b_balance = balance,
            b_sales_income = sales_income, b_non_sales_income = non_sales,
            b_expenses = expenses\<rparr>)"

text \<open>
  \<^verbatim>\<open>get_account_balance()\<close>: the dictionary filled by the loop over \<^verbatim>\<open>self.get_accounts()\<close>;
  a later account with the same key would overwrite an earlier one.
\<close>

definition get_account_balance :: "db \<Rightarrow> (int \<rightharpoonup> balance_entry)" where
  "get_account_balance d =
     fold (\<lambda>acc result. result(acc_id acc \<mapsto> account_balance d acc))
          (get_accounts d None) Map.empty"

subsection \<open>Payment methods and locations\<close>

text \<open>
  \<^verbatim>\<open>add_payment_method(name, method_type, commission, account_id)\<close>, the second definition
  in the class. The parameters are annotated \<^verbatim>\<open>float\<close> and \<^verbatim>\<open>int\<close>, so the commission and
  the default account of a stored method are not \<^verbatim>\<open>NULL\<close>.
\<close>

definition add_payment_method ::
  "db \<Rightarrow> string \<Rightarrow> string \<Rightarrow> real \<Rightarrow> int \<Rightarrow> error + (int \<times> db)" where
  "add_payment_method d name method_type commission account_id =
     (if name \<in> set (map pm_name (payment_methods d))
         \<or> method_type \<notin> {''terminal'', ''online'', ''delivery''}
      then Inl IntegrityError
      else let i = next_id (map pm_id (payment_methods d))
           in Inr (i, d\<lparr>payment_methods := payment_methods d @
                  [\<lparr>pm_id = i, pm_name = name, pm_method_type = method_type,
                    pm_default_account_id = account_id, pm_commission_percent = commission,
                    pm_is_active = True, pm_display_order = 0\<rparr>]\<rparr>))"

definition update_payment_method ::
  "db \<Rightarrow> int \<Rightarrow> string \<Rightarrow> string \<Rightarrow> real \<Rightarrow> int \<Rightarrow> bool \<Rightarrow> error + db" where
  "update_payment_method d method_id name method_type commission account_id is_active =
     (if \<not> (\<exists>m \<in> set (payment_methods d). pm_id m = method_id) then Inr d
      else if name \<in> set (map pm_name (filter (\<lambda>m. pm_id m \<noteq> method_id) (payment_methods d)))
              \<or> method_type \<notin> {''terminal'', ''online'', ''delivery''}
      then Inl IntegrityError
      else Inr (d\<lparr>payment_methods :=
             map (\<lambda>m. if pm_id m = method_id
                       then m\<lparr>pm_name := name, pm_method_type := method_type,
                              pm_commission_percent := commission,
                              pm_default_account_id := account_id, pm_is_active := is_active\<rparr>
                       else m) (payment_methods d)\<rparr>))"

definition delete_payment_method :: "db \<Rightarrow> int \<Rightarrow> db" where
  "delete_payment_method d method_id =
     d\<lparr>payment_methods :=
         map (\<lambda>m. if pm_id m = method_id then m\<lparr>pm_is_active := False\<rparr> else m)
             (payment_methods d)\<rparr>"

definition update_payment_method_default_account :: "db \<Rightarrow> int \<Rightarrow> int \<Rightarrow> db" where
  "update_payment_method_default_account d method_id account_id =
     d\<lparr>payment_methods :=
         map (\<lambda>m. if pm_id m = method_id then m\<lparr>pm_default_account_id := account_id\<rparr> else m)
             (payment_methods d)\<rparr>"

text \<open>\<^verbatim>\<open>update_payment_methods_order\<close>: the loop over \<^verbatim>\<open>enumerate(ordered_ids)\<close>.\<close>

definition update_payment_methods_order :: "db \<Rightarrow> int list \<Rightarrow> db" where
  "update_payment_methods_order d ordered_ids =
     fold (\<lambda>(order, method_id) d'.
             d'\<lparr>payment_methods :=
                 map (\<lambda>m. if pm_id m = method_id then m\<lparr>pm_display_order := int order\<rparr> else m)
                     (payment_methods d')\<rparr>)
          (enumerate 0 ordered_ids) d"

text \<open>
  \<^verbatim>\<open>get_payment_methods(method_type=None)\<close>: the active methods, in the order of the query.
  The \<^verbatim>\<open>LEFT JOIN\<close> with \<^verbatim>\<open>accounts\<close> adds the name of the default account to each row and
  no row (the account id is a primary key); that column is not modelled.
\<close>

definition get_payment_methods :: "db \<Rightarrow> string option \<Rightarrow> payment_method_row list" where
  "get_payment_methods d method_type =
     (case method_type of
        Some t \<Rightarrow>
          if t \<noteq> [] then sort_key (\<lambda>m. (pm_display_order m, pm_name m))
                 (filter (\<lambda>m. pm_is_active m \<and> pm_method_type m = t) (payment_methods d))
          else sort_key (\<lambda>m. (pm_display_order m, pm_method_type m, pm_name m))
                 (filter pm_is_active (payment_methods d))
      | None \<Rightarrow> sort_key (\<lambda>m. (pm_display_order m, pm_method_type m, pm_name m))
                 (filter pm_is_active (payment_methods d)))"

text \<open>\<^verbatim>\<open>add_location\<close>, \<^verbatim>\<open>update_location\<close>, \<^verbatim>\<open>delete_location\<close> (the address is not modelled).\<close>

definition add_location :: "db \<Rightarrow> string \<Rightarrow> error + (int \<times> db)" where
  "add_location d name =
     (if name \<in> set (map loc_name (locations d)) then Inl IntegrityError
      else let i = next_id (map loc_id (locations d))
           in Inr (i, d\<lparr>locations := locations d @
                  [\<lparr>loc_id = i, loc_name = name, loc_is_active = True\<rparr>]\<rparr>))"

definition update_location :: "db \<Rightarrow> int \<Rightarrow> string \<Rightarrow> bool \<Rightarrow> error + db" where
  "update_location d location_id name is_active =
     (if \<not> (\<exists>l \<in> set (locations d). loc_id l = location_id) then Inr d
      else if name \<in> set (map loc_name (filter (\<lambda>l. loc_id l \<noteq> location_id) (locations d)))
      then Inl IntegrityError
      else Inr (d\<lparr>locations :=
             map (\<lambda>l. if loc_id l = location_id
                       then l\<lparr>loc_name := name, loc_is_active := is_active\<rparr> else l)
                 (locations d)\<rparr>))"

definition delete_location :: "db \<Rightarrow> int \<Rightarrow> db" where
  "delete_location d location_id =
     d\<lparr>locations := map (\<lambda>l. if loc_id l = location_id then l\<lparr>loc_is_active := False\<rparr> else l)
                         (locations d)\<rparr>"

subsection \<open>Daily reports\<close>

text \<open>
  \<^verbatim>\<open>create_daily_report\<close>: the date argument is the text that \<^verbatim>\<open>report_date.isoformat()\<close>
  stores. \<^verbatim>\<open>UNIQUE(report_date, location_id)\<close> makes the insertion raise
  \<^verbatim>\<open>sqlite3.IntegrityError\<close>; the other columns take their defaults.
\<close>

definition create_daily_report ::
  "db \<Rightarrow> string \<Rightarrow> int \<Rightarrow> real \<Rightarrow> string option \<Rightarrow> error + (int \<times> db)" where
  "create_daily_report d report_date location_id total_sales created_by =
     (if (report_date, location_id)
           \<in> set (map (\<lambda>r. (dr_report_date r, dr_location_id r)) (daily_reports d))
      then Inl IntegrityError
      else let i = next_id (map dr_id (daily_reports d))
           in Inr (i, d\<lparr>daily_reports := daily_reports d @
                  [\<lparr>dr_id = i, dr_report_date = report_date, dr_location_id = location_id,
                    dr_total_sales = total_sales, dr_cash_expected = None,
                    dr_cash_actual = None, dr_cash_difference = None,
                    dr_cash_breakdown = None, dr_status = Open, dr_created_by = created_by,
                    dr_closed_at = None\<rparr>]\<rparr>))"

text \<open>
  \<^verbatim>\<open>get_daily_report\<close>: the report joined (inner \<^verbatim>\<open>JOIN\<close>) with its location, the first row
  of the result or \<^verbatim>\<open>None\<close>.
\<close>

definition get_daily_report :: "db \<Rightarrow> string \<Rightarrow> int \<Rightarrow> (daily_report_row \<times> string) option" where
  "get_daily_report d report_date location_id =
     (case [(dr, loc_name l).
              dr \<leftarrow> daily_reports d, l \<leftarrow> locations d, dr_location_id dr = loc_id l,
              dr_report_date dr = report_date \<and> dr_location_id dr = location_id] of
        [] \<Rightarrow> None
      | result # _ \<Rightarrow> Some result)"

text \<open>
  \<^verbatim>\<open>add_report_payment\<close>: the commission of the method as it is now, 0 when there is no such
  method; \<^verbatim>\<open>commission_amount = amount * (commission_percent / 100)\<close> and
  \<^verbatim>\<open>net_amount = amount - commission_amount\<close>, a division, a multiplication and a
  subtraction of doubles.
\<close>

definition add_report_payment :: "db \<Rightarrow> int \<Rightarrow> int \<Rightarrow> int \<Rightarrow> real \<Rightarrow> int \<times> db" where
  "add_report_payment d report_id payment_method_id account_id amount =
     (let method = find (\<lambda>m. pm_id m = payment_method_id) (payment_methods d);
          commission_percent = (case method of Some m \<Rightarrow> pm_commission_percent m | None \<Rightarrow> 0);
          commission_amount = round_double (amount * round_double (commission_percent / 100));
          net_amount = round_double (amount - commission_amount);
          i = next_id (map rp_id (report_payments d))
      in (i, d\<lparr>report_payments := report_payments d @
                 [\<lparr>rp_id = i, rp_report_id = report_id,
                   rp_payment_method_id = payment_method_id, rp_account_id = account_id,
                   rp_amount = amount, rp_commission_amount = commission_amount,
                   rp_net_amount = net_amount\<rparr>]\<rparr>))"

text \<open>
  \<^verbatim>\<open>update_report_cash\<close>; the last argument is the text of \<^verbatim>\<open>json.dumps(cash_breakdown)\<close>.
\<close>

definition update_report_cash :: "db \<Rightarrow> int \<Rightarrow> real \<Rightarrow> real \<Rightarrow> string \<Rightarrow> db" where
  "update_report_cash d report_id cash_expected cash_actual cash_breakdown =
     (let cash_difference = cash_actual - cash_expected
      in d\<lparr>daily_reports :=
             map (\<lambda>r. if dr_id r = report_id
                       then r\<lparr>dr_cash_expected := Some cash_expected,
                              dr_cash_actual := Some cash_actual,
                              dr_cash_difference := Some cash_difference,
                              dr_cash_breakdown := Some cash_breakdown\<rparr>
                       else r) (daily_reports d)\<rparr>)"

text \<open>\<^verbatim>\<open>close_report\<close>; \<^verbatim>\<open>now\<close> is the value of \<^verbatim>\<open>CURRENT_TIMESTAMP\<close>.\<close>

definition close_report :: "db \<Rightarrow> int \<Rightarrow> string \<Rightarrow> db" where
  "close_report d report_id now =
     d\<lparr>daily_reports :=
         map (\<lambda>r. if dr_id r = report_id
                   then r\<lparr>dr_status := Closed, dr_closed_at := Some now\<rparr> else r)
             (daily_reports d)\<rparr>"

subsection \<open>The history engine\<close>

record history_entry =
  h_date :: string
  h_report_id :: int
  h_amount :: "real option"
  h_description :: string
  h_operation_type :: string
  h_location :: "string option"

text \<open>The description of the cash entries, the UTF-8 bytes of the Russian literal.\<close>

definition cash_sales_description :: string where
  "cash_sales_description =
     [CHR 0xD0, CHR 0x9F, CHR 0xD1, CHR 0x80, CHR 0xD0, CHR 0xBE, CHR 0xD0, CHR 0xB4,
      CHR 0xD0, CHR 0xB0, CHR 0xD0, CHR 0xB6, CHR 0xD0, CHR 0xB8, CHR 0x20, CHR 0xD0,
      CHR 0xBD, CHR 0xD0, CHR 0xB0, CHR 0xD0, CHR 0xBB, CHR 0xD0, CHR 0xB8, CHR 0xD1,
      CHR 0x87, CHR 0xD0, CHR 0xBD, CHR 0xD1, CHR 0x8B, CHR 0xD0, CHR 0xBC, CHR 0xD0,
      CHR 0xB8]"

text \<open>
  \<^verbatim>\<open>LEFT JOIN locations l ON dr.location_id = l.id\<close>, the column \<^verbatim>\<open>l.name\<close>: one row per
  matching location, one row with \<^verbatim>\<open>NULL\<close> when there is none.
\<close>

definition location_names :: "db \<Rightarrow> int \<Rightarrow> string option list" where
  "location_names d location_id =
     (case filter (\<lambda>l. loc_id l = location_id) (locations d) of
        [] \<Rightarrow> [None]
      | l # ls \<Rightarrow> map (\<lambda>l. Some (loc_name l)) (l # ls))"

text \<open>
  Descending order by date that keeps the rows of one date in their order: Python's
  \<^verbatim>\<open>history.sort(key=..., reverse=True)\<close> is stable. The same function stands for
  \<^verbatim>\<open>ORDER BY dr.report_date DESC\<close>. There SQLite is free in the order of equal dates and
  may return them in another order than the model's, which keeps the order of the rows in
  their table; the statements below are about the order of the dates and about which
  entries there are, and none depends on the order of equal dates.
\<close>

definition sort_date_desc :: "history_entry list \<Rightarrow> history_entry list" where
  "sort_date_desc xs = rev (sort_key h_date (rev xs))"

definition cash_history :: "db \<Rightarrow> history_entry list" where
  "cash_history d =
     sort_date_desc
       [\<lparr>h_date = dr_report_date dr, h_report_id = dr_id dr, h_amount = dr_cash_actual dr,
         h_description = cash_sales_description, h_operation_type = ''+'', h_location = loc\<rparr>.
        dr \<leftarrow> filter (\<lambda>dr. dr_status dr = Closed) (daily_reports d),
        loc \<leftarrow> location_names d (dr_location_id dr)]"

definition payment_history :: "db \<Rightarrow> int \<Rightarrow> history_entry list" where
  "payment_history d account_id =
     sort_date_desc
       [\<lparr>h_date = dr_report_date dr, h_report_id = rp_report_id rp,
         h_amount = Some (rp_net_amount rp), h_description = pm_name pm,
         h_operation_type = ''+'', h_location = loc\<rparr>.
        rp \<leftarrow> filter (\<lambda>rp. rp_account_id rp = account_id) (report_payments d),
        dr \<leftarrow> filter (\<lambda>dr. dr_id dr = rp_report_id rp) (daily_reports d),
        pm \<leftarrow> filter (\<lambda>pm. pm_id pm = rp_payment_method_id rp) (payment_methods d),
        loc \<leftarrow> location_names d (dr_location_id dr)]"

text \<open>The two queries over \<^verbatim>\<open>non_sales_income\<close> and \<^verbatim>\<open>report_expenses\<close> differ in the sign.\<close>

definition line_history :: "db \<Rightarrow> line_row list \<Rightarrow> string \<Rightarrow> int \<Rightarrow> history_entry list" where
  "line_history d lines operation_type account_id =
     sort_date_desc
       [\<lparr>h_date = dr_report_date dr, h_report_id = ln_report_id row,
         h_amount = Some (ln_amount row), h_description = ln_description row,
         h_operation_type = operation_type, h_location = loc\<rparr>.
        row \<leftarrow> filter (\<lambda>row. ln_account_id row = account_id) lines,
        dr \<leftarrow> filter (\<lambda>dr. dr_id dr = ln_report_id row) (daily_reports d),
        loc \<leftarrow> location_names d (dr_location_id dr)]"

definition get_account_history :: "db \<Rightarrow> int \<Rightarrow> history_entry list" where
  "get_account_history d account_id =
     (case find (\<lambda>a. acc_id a = account_id) (accounts d) of
        None \<Rightarrow> []
      | Some account \<Rightarrow>
          let history = (if acc_type account = ''cash'' then cash_history d
                         else payment_history d account_id);
              history = history @ line_history d (non_sales_income d) ''+'' account_id;
              history = history @ line_history d (report_expenses d) ''-'' account_id
          in sort_date_desc history)"

section \<open>The endpoint \<^verbatim>\<open>create_report\<close> of \<^verbatim>\<open>api_server.py\<close>\<close>

record payment_entry =
  pe_method_id :: int
  pe_amount :: real

record expense_entry =
  ee_category_id :: "int option"
  ee_amount :: real
  ee_description :: string

record income_entry =
  ie_category_id :: "int option"
  ie_amount :: real
  ie_description :: string

text \<open>
  \<^verbatim>\<open>CreateReportRequest\<close>. \<^verbatim>\<open>rq_report_date\<close> is the outcome of
  \<^verbatim>\<open>datetime.strptime(request.report_date, '%Y-%m-%d').date()\<close>: the ISO text of the date, or
  \<^verbatim>\<open>None\<close> when \<^verbatim>\<open>strptime\<close> raises \<^verbatim>\<open>ValueError\<close>. The fields declared \<^verbatim>\<open>Optional\<close> may be
  \<^verbatim>\<open>null\<close> in the request.
\<close>

record create_report_request =
  rq_report_date :: "string option"
  rq_location_id :: int
  rq_total_sales :: real
  rq_payments :: "payment_entry list"
  rq_expenses :: "expense_entry list option"
  rq_incomes :: "income_entry list option"
  rq_cash_actual :: "real option"
  rq_created_by :: "string option"

text \<open>
  The two \<^verbatim>\<open>HTTPException\<close>s of the endpoint: status 400 when the report exists, status 500
  around any other exception.
\<close>

datatype http_exception = Status400_report_exists | Status500 error

text \<open>The three loops; every insertion is committed at once.\<close>

fun add_payments :: "db \<Rightarrow> int \<Rightarrow> payment_entry list \<Rightarrow> db" where
  "add_payments d report_id [] = d"
| "add_payments d report_id (payment # payments) =
     (if pe_amount payment > 0 then
        (case find (\<lambda>m. pm_id m = pe_method_id payment) (get_payment_methods d None) of
           Some method \<Rightarrow>
             add_payments
               (snd (add_report_payment d report_id (pe_method_id payment)
                       (pm_default_account_id method) (pe_amount payment)))
               report_id payments
         | None \<Rightarrow> add_payments d report_id payments)
      else add_payments d report_id payments)"

fun add_expenses :: "db \<Rightarrow> int \<Rightarrow> expense_entry list \<Rightarrow> db" where
  "add_expenses d report_id [] = d"
| "add_expenses d report_id (expense # expenses) =
     (if ee_amount expense > 0 then
        add_expenses
          (snd (add_report_expense d report_id 1 (ee_amount expense) (ee_category_id expense)
                  (ee_description expense)))
          report_id expenses
      else add_expenses d report_id expenses)"

fun add_incomes :: "db \<Rightarrow> int \<Rightarrow> income_entry list \<Rightarrow> db" where
  "add_incomes d report_id [] = d"
| "add_incomes d report_id (income # incomes) =
     (if ie_amount income > 0 then
        add_incomes
          (snd (add_non_sales_income d report_id 1 (ie_amount income) (ie_category_id income)
                  (ie_description income)))
          report_id incomes
      else add_incomes d report_id incomes)"

text \<open>
  \<^verbatim>\<open>create_report(request)\<close>: the response (the new report id, or the exception) and the
  store as the committed statements leave it, also when a later step raises.
\<close>

definition create_report :: "db \<Rightarrow> create_report_request \<Rightarrow> (http_exception + int) \<times> db" where
  "create_report d request =
     (case rq_report_date request of
        None \<Rightarrow> (Inl (Status500 ValueError), d)
      | Some report_date \<Rightarrow>
     (case get_daily_report d report_date (rq_location_id request) of
        Some existing \<Rightarrow> (Inl Status400_report_exists, d)
      | None \<Rightarrow>
     (case create_daily_report d report_date (rq_location_id request) (rq_total_sales request)
             (rq_created_by request) of
        Inl e \<Rightarrow> (Inl (Status500 e), d)
      | Inr (report_id, d1) \<Rightarrow>
     (let d2 = add_payments d1 report_id (rq_payments request) in
      case rq_expenses request of
        None \<Rightarrow> (Inl (Status500 TypeError), d2)
      | Some expenses \<Rightarrow>
     (let d3 = add_expenses d2 report_id expenses in
      case rq_incomes request of
        None \<Rightarrow> (Inl (Status500 TypeError), d3)
      | Some incomes \<Rightarrow>
     (let d4 = add_incomes d3 report_id incomes in
      case rq_cash_actual request of
        None \<Rightarrow> (Inl (Status500 TypeError), d4)
      | Some cash_actual \<Rightarrow>
          if cash_actual > 0
          then (Inr report_id,
                d4\<lparr>daily_reports :=
                     map (\<lambda>r. if dr_id r = report_id
                               then r\<lparr>dr_cash_actual := Some cash_actual, dr_status := Closed\<rparr>
                               else r) (daily_reports d4)\<rparr>)
          else (Inr report_id, d4)))))))"

section \<open>Reachable stores\<close>

text \<open>
  The calls that change the modelled tables. A store is reachable when a sequence of them
  leads to it from the empty store of \<^verbatim>\<open>init_database\<close>; a call that raises leaves what it
  had committed.
\<close>

datatype operation =
    AddAccount string string
  | UpdateAccount int string string bool
  | DeleteAccount int
  | AddPaymentMethod string string real int
  | UpdatePaymentMethod int string string real int bool
  | DeletePaymentMethod int
  | UpdatePaymentMethodDefaultAccount int int
  | UpdatePaymentMethodsOrder "int list"
  | AddLocation string
  | UpdateLocation int string bool
  | DeleteLocation int
  | CreateDailyReport string int real "string option"
  | AddReportPayment int int int real
  | AddNonSalesIncome int int real "int option" string
  | AddReportExpense int int real "int option" string
  | UpdateReportCash int real real string
  | CloseReport int string
  | CreateReport create_report_request

fun exec :: "operation \<Rightarrow> db \<Rightarrow> db" where
  "exec (AddAccount n t) d = (case add_account d n t of Inl e \<Rightarrow> d | Inr (i, d') \<Rightarrow> d')"
| "exec (UpdateAccount i n t a) d = (case update_account d i n t a of Inl e \<Rightarrow> d | Inr d' \<Rightarrow> d')"
| "exec (DeleteAccount i) d = delete_account d i"
| "exec (AddPaymentMethod n t c a) d =
     (case add_payment_method d n t c a of Inl e \<Rightarrow> d | Inr (i, d') \<Rightarrow> d')"
| "exec (UpdatePaymentMethod i n t c a b) d =
     (case update_payment_method d i n t c a b of Inl e \<Rightarrow> d | Inr d' \<Rightarrow> d')"
| "exec (DeletePaymentMethod i) d = delete_payment_method d i"
| "exec (UpdatePaymentMethodDefaultAccount i a) d = update_payment_method_default_account d i a"
| "exec (UpdatePaymentMethodsOrder ids) d = update_payment_methods_order d ids"
| "exec (AddLocation n) d = (case add_location d n of Inl e \<Rightarrow> d | Inr (i, d') \<Rightarrow> d')"
| "exec (UpdateLocation i n a) d = (case update_location d i n a of Inl e \<Rightarrow> d | Inr d' \<Rightarrow> d')"
| "exec (DeleteLocation i) d = delete_location d i"
| "exec (CreateDailyReport dt l t c) d =
     (case create_daily_report d dt l t c of Inl e \<Rightarrow> d | Inr (i, d') \<Rightarrow> d')"
| "exec (AddReportPayment r m a x) d = snd (add_report_payment d r m a x)"
| "exec (AddNonSalesIncome r a x c s) d = snd (add_non_sales_income d r a x c s)"
| "exec (AddReportExpense r a x c s) d = snd (add_report_expense d r a x c s)"
| "exec (UpdateReportCash r e a b) d = update_report_cash d r e a b"
| "exec (CloseReport r now) d = close_report d r now"
| "exec (CreateReport request) d = snd (create_report d request)"

inductive reachable :: "db \<Rightarrow> bool" where
  reachable_init: "reachable init_database"
| reachable_exec: "reachable d \<Longrightarrow> reachable (exec operation d)"

section \<open>The statements of the specification\<close>

text \<open>
  The cash balance in the words of the specification: the sum of \<^verbatim>\<open>cash_actual\<close> over all
  reports with status closed, whatever their location; a report without a count adds nothing.
\<close>

definition spec_cash_balance :: "db \<Rightarrow> real" where
  "spec_cash_balance d =
     (\<Sum>r\<leftarrow>filter (\<lambda>r. dr_status r = Closed) (daily_reports d).
        case dr_cash_actual r of None \<Rightarrow> 0 | Some c \<Rightarrow> c)"

text \<open>
  The invariant of the specification on one report: \<^verbatim>\<open>cash_difference\<close> is
  \<^verbatim>\<open>cash_actual - cash_expected\<close> whenever both are set.
\<close>

definition cash_difference_consistent :: "daily_report_row \<Rightarrow> bool" where
  "cash_difference_consistent r =
     (case (dr_cash_actual r, dr_cash_expected r) of
        (Some actual, Some expected) \<Rightarrow> dr_cash_difference r = Some (actual - expected)
      | _ \<Rightarrow> True)"

text \<open>
  The entry of the history that belongs to one row: of a closed report, of a line of
  \<^verbatim>\<open>non_sales_income\<close> or \<^verbatim>\<open>report_expenses\<close>, of a payment. The date and the location are
  those of the report of the row; a row whose report (or, for a payment, method) does not
  exist has no entry.
\<close>

definition report_of :: "db \<Rightarrow> int \<Rightarrow> daily_report_row option" where
  "report_of d report_id = find (\<lambda>r. dr_id r = report_id) (daily_reports d)"

definition location_name_of :: "db \<Rightarrow> int \<Rightarrow> string option" where
  "location_name_of d location_id =
     map_option loc_name (find (\<lambda>l. loc_id l = location_id) (locations d))"

definition cash_entry :: "db \<Rightarrow> daily_report_row \<Rightarrow> history_entry" where
  "cash_entry d r =
     \<lparr>h_date = dr_report_date r, h_report_id = dr_id r, h_amount = dr_cash_actual r,
      h_description = cash_sales_description, h_operation_type = ''+'',
      h_location = location_name_of d (dr_location_id r)\<rparr>"

definition line_entry :: "db \<Rightarrow> string \<Rightarrow> line_row \<Rightarrow> history_entry option" where
  "line_entry d operation_type row =
     map_option
       (\<lambda>r. \<lparr>h_date = dr_report_date r, h_report_id = ln_report_id row,
              h_amount = Some (ln_amount row), h_description = ln_description row,
              h_operation_type = operation_type,
              h_location = location_name_of d (dr_location_id r)\<rparr>)
       (report_of d (ln_report_id row))"

definition payment_entry_of :: "db \<Rightarrow> report_payment_row \<Rightarrow> history_entry option" where
  "payment_entry_of d p =
     (case (report_of d (rp_report_id p),
            find (\<lambda>m. pm_id m = rp_payment_method_id p) (payment_methods d)) of
        (Some r, Some m) \<Rightarrow>
          Some \<lparr>h_date = dr_report_date r, h_report_id = rp_report_id p,
                h_amount = Some (rp_net_amount p), h_description = pm_name m,
                h_operation_type = ''+'', h_location = location_name_of d (dr_location_id r)\<rparr>
      | _ \<Rightarrow> None)"

text \<open>
  The keys of the schema: the ids are primary keys; the report of every line and the
  report and the method of every payment exist (the foreign keys that the schema
  declares).
\<close>

definition primary_keys :: "db \<Rightarrow> bool" where
  "primary_keys d \<longleftrightarrow>
     distinct (map dr_id (daily_reports d)) \<and> distinct (map loc_id (locations d))
     \<and> distinct (map pm_id (payment_methods d))"

definition foreign_keys :: "db \<Rightarrow> bool" where
  "foreign_keys d \<longleftrightarrow>
     list_all (\<lambda>l. ln_report_id l \<in> set (map dr_id (daily_reports d)))
       (non_sales_income d @ report_expenses d)
     \<and> list_all (\<lambda>p. rp_report_id p \<in> set (map dr_id (daily_reports d))
                    \<and> rp_payment_method_id p \<in> set (map pm_id (payment_methods d)))
         (report_payments d)"

section \<open>Auxiliary definitions\<close>

text \<open>The row that \<^verbatim>\<open>create_daily_report\<close> inserts.\<close>

definition new_report :: "db \<Rightarrow> string \<Rightarrow> int \<Rightarrow> real \<Rightarrow> string option \<Rightarrow> daily_report_row" where
  "new_report d report_date location_id total_sales created_by =
     \<lparr>dr_id = next_id (map dr_id (daily_reports d)), dr_report_date = report_date,
      dr_location_id = location_id, dr_total_sales = total_sales, dr_cash_expected = None,
      dr_cash_actual = None, dr_cash_difference = None, dr_cash_breakdown = None,
      dr_status = Open, dr_created_by = created_by, dr_closed_at = None\<rparr>"

text \<open>The calls that write to \<^verbatim>\<open>daily_reports\<close>.\<close>

definition touches_reports :: "operation \<Rightarrow> bool" where
  "touches_reports operation =
     (case operation of
        CreateDailyReport dt l t c \<Rightarrow> True
      | UpdateReportCash r e a b \<Rightarrow> True
      | CloseReport r now \<Rightarrow> True
      | CreateReport request \<Rightarrow> True
      | _ \<Rightarrow> False)"

section \<open>Example stores\<close>

text \<open>
  The scenario of the specification: a report of 2024-05-01 closed with 400 in cash, a card
  payment of 600 at 5 percent into the bank account, an expense of 100 against the bank
  account; besides, a courier payment of 80 whose method pays into the cash account, a
  deposit of 50 against the cash account, a second cash account, an account that was
  soft-deleted and a report that is still open.
\<close>

definition example_db :: db where
  "example_db =
     \<lparr>accounts =
        [\<lparr>acc_id = 1, acc_name = ''Kassa'', acc_type = ''cash'', acc_is_active = True\<rparr>,
         \<lparr>acc_id = 2, acc_name = ''Bank'', acc_type = ''bank'', acc_is_active = True\<rparr>,
         \<lparr>acc_id = 3, acc_name = ''Old'', acc_type = ''bank'', acc_is_active = False\<rparr>,
         \<lparr>acc_id = 4, acc_name = ''Safe'', acc_type = ''cash'', acc_is_active = True\<rparr>],
      payment_methods =
        [\<lparr>pm_id = 1, pm_name = ''Card'', pm_method_type = ''terminal'',
          pm_default_account_id = 2, pm_commission_percent = 5, pm_is_active = True,
          pm_display_order = 0\<rparr>,
         \<lparr>pm_id = 2, pm_name = ''Courier'', pm_method_type = ''delivery'',
          pm_default_account_id = 1, pm_commission_percent = 0, pm_is_active = True,
          pm_display_order = 0\<rparr>],
      locations = [\<lparr>loc_id = 1, loc_name = ''Shop'', loc_is_active = True\<rparr>],
      daily_reports =
        [\<lparr>dr_id = 1, dr_report_date = ''2024-05-01'', dr_location_id = 1,
          dr_total_sales = 1000, dr_cash_expected = None, dr_cash_actual = Some 400,
          dr_cash_difference = None, dr_cash_breakdown = None, dr_status = Closed,
          dr_created_by = Some ''telegram_user'', dr_closed_at = None\<rparr>,
         \<lparr>dr_id = 2, dr_report_date = ''2024-05-02'', dr_location_id = 1,
          dr_total_sales = 700, dr_cash_expected = None, dr_cash_actual = None,
          dr_cash_difference = None, dr_cash_breakdown = None, dr_status = Open,
          dr_created_by = Some ''telegram_user'', dr_closed_at = None\<rparr>],
      report_payments =
        [\<lparr>rp_id = 1, rp_report_id = 1, rp_payment_method_id = 1, rp_account_id = 2,
          rp_amount = 600, rp_commission_amount = 30, rp_net_amount = 570\<rparr>,
         \<lparr>rp_id = 2, rp_report_id = 1, rp_payment_method_id = 2, rp_account_id = 1,
          rp_amount = 80, rp_commission_amount = 0, rp_net_amount = 80\<rparr>],
      non_sales_income =
        [\<lparr>ln_id = 1, ln_report_id = 1, ln_category_id = None, ln_account_id = 1,
          ln_amount = 50, ln_description = ''deposit''\<rparr>],
      report_expenses =
        [\<lparr>ln_id = 1, ln_report_id = 1, ln_category_id = None, ln_account_id = 2,
          ln_amount = 100, ln_description = ''rent''\<rparr>]\<rparr>"

text \<open>A report created and then counted with \<^verbatim>\<open>update_report_cash\<close>.\<close>

definition example_cash_db :: db where
  "example_cash_db =
     exec (UpdateReportCash 1 450 400 ''{}'')
       (exec (CreateDailyReport ''2024-05-01'' 1 1000 None) init_database)"

text \<open>
  Requests to the endpoint: for a location that has no row in \<^verbatim>\<open>locations\<close> (and the store
  after it), with entries of every sign, with a payment whose method does not exist, and
  with a cash count; and a store with one open report.
\<close>

definition request_unknown_location :: create_report_request where
  "request_unknown_location =
     \<lparr>rq_report_date = Some ''2024-05-01'', rq_location_id = 7, rq_total_sales = 1000,
      rq_payments = [], rq_expenses = Some [], rq_incomes = Some [], rq_cash_actual = Some 0,
      rq_created_by = Some ''telegram_user''\<rparr>"

definition store_unknown_location :: db where
  "store_unknown_location =
     init_database\<lparr>daily_reports :=
       [\<lparr>dr_id = 1, dr_report_date = ''2024-05-01'', dr_location_id = 7,
         dr_total_sales = 1000, dr_cash_expected = None, dr_cash_actual = None,
         dr_cash_difference = None, dr_cash_breakdown = None, dr_status = Open,
         dr_created_by = Some ''telegram_user'', dr_closed_at = None\<rparr>]\<rparr>"

definition request_mixed :: create_report_request where
  "request_mixed =
     \<lparr>rq_report_date = Some ''2024-05-03'', rq_location_id = 1, rq_total_sales = 900,
      rq_payments = [\<lparr>pe_method_id = 1, pe_amount = 600\<rparr>, \<lparr>pe_method_id = 1, pe_amount = 0\<rparr>,
                     \<lparr>pe_method_id = 9, pe_amount = 100\<rparr>],
      rq_expenses = Some [\<lparr>ee_category_id = None, ee_amount = 100, ee_description = ''rent''\<rparr>,
                          \<lparr>ee_category_id = None, ee_amount = - 5, ee_description = ''typo''\<rparr>],
      rq_incomes = Some [\<lparr>ie_category_id = Some 2, ie_amount = 0, ie_description = ''none''\<rparr>,
                         \<lparr>ie_category_id = None, ie_amount = 50, ie_description = ''deposit''\<rparr>],
      rq_cash_actual = Some 400,
      rq_created_by = Some ''telegram_user''\<rparr>"

definition request_unknown_method :: create_report_request where
  "request_unknown_method =
     \<lparr>rq_report_date = Some ''2024-05-03'', rq_location_id = 1, rq_total_sales = 100,
      rq_payments = [\<lparr>pe_method_id = 9, pe_amount = 100\<rparr>],
      rq_expenses = Some [], rq_incomes = Some [], rq_cash_actual = Some 0,
      rq_created_by = Some ''telegram_user''\<rparr>"

definition example_open_db :: db where
  "example_open_db = exec (CreateDailyReport ''2024-05-01'' 1 1000 None) init_database"

definition request_with_cash :: create_report_request where
  "request_with_cash =
     \<lparr>rq_report_date = Some ''2024-05-01'', rq_location_id = 1, rq_total_sales = 1000,
      rq_payments = [], rq_expenses = Some [], rq_incomes = Some [], rq_cash_actual = Some 400,
      rq_created_by = Some ''telegram_user''\<rparr>"

text \<open>A store with one payment method, at 2 percent.\<close>

definition example_percent_db :: db where
  "example_percent_db =
     init_database\<lparr>payment_methods :=
       [\<lparr>pm_id = 1, pm_name = ''Card'', pm_method_type = ''terminal'',
         pm_default_account_id = 2, pm_commission_percent = 2, pm_is_active = True,
         pm_display_order = 0\<rparr>]\<rparr>"

section \<open>Auxiliary facts\<close>

lemma or_0_sql_sum:
  "or_0 (sql_sum vs) = sum_list (map (\<lambda>v. case v of None \<Rightarrow> 0 | Some x \<Rightarrow> x) vs)"
proof -
  have "sum_list (List.map_filter id vs) = sum_list (map (\<lambda>v. case v of None \<Rightarrow> 0 | Some x \<Rightarrow> x) vs)"
    by (induction vs) (auto simp: List.map_filter_simps split: option.splits)
  then show ?thesis
    by (auto simp: or_0_def sql_sum_def split: list.splits)
qed

lemma or_0_sql_sum_Some:
  "or_0 (sql_sum (map (\<lambda>x. Some (f x)) xs)) = sum_list (map f xs)"
  by (simp add: or_0_sql_sum comp_def)

lemma set_get_accounts_None:
  "set (get_accounts d None) = {a \<in> set (accounts d). acc_is_active a}"
  by (auto simp: get_accounts_def)

lemma distinct_get_accounts_None:
  "distinct (map acc_id (accounts d)) \<Longrightarrow> distinct (map acc_id (get_accounts d None))"
  by (simp add: get_accounts_def distinct_map_filter distinct_map inj_on_def)

lemma fold_upd_notin:
  "k \<notin> f ` set xs \<Longrightarrow> fold (\<lambda>x m. m(f x \<mapsto> g x)) xs m k = m k"
  by (induction xs arbitrary: m) auto

lemma fold_upd_in:
  "distinct (map f xs) \<Longrightarrow> x \<in> set xs \<Longrightarrow> fold (\<lambda>x m. m(f x \<mapsto> g x)) xs m (f x) = Some (g x)"
proof (induction xs arbitrary: m)
  case Nil
  then show ?case by simp
next
  case (Cons y ys)
  show ?case
  proof (cases "x = y")
    case True
    with Cons.prems have "f x \<notin> f ` set ys" by auto
    then have "fold (\<lambda>x m. m(f x \<mapsto> g x)) ys (m(f x \<mapsto> g x)) (f x) = (m(f x \<mapsto> g x)) (f x)"
      by (rule fold_upd_notin)
    with True show ?thesis by (simp del: fun_upd_apply add: fun_upd_same)
  next
    case False
    with Cons.prems have "distinct (map f ys)" "x \<in> set ys" by auto
    then have "fold (\<lambda>x m. m(f x \<mapsto> g x)) ys (m(f y \<mapsto> g y)) (f x) = Some (g x)"
      by (rule Cons.IH)
    then show ?thesis by (simp del: fun_upd_apply)
  qed
qed

lemma get_account_balance_listed:
  assumes "distinct (map acc_id (accounts d))" "acc \<in> set (get_accounts d None)"
  shows "get_account_balance d (acc_id acc) = Some (account_balance d acc)"
  using distinct_get_accounts_None [OF assms(1)] assms(2)
  unfolding get_account_balance_def by (rule fold_upd_in)

lemma get_accounts_frame:
  "accounts d' = accounts d \<Longrightarrow> get_accounts d' t = get_accounts d t"
  by (auto simp: get_accounts_def split: option.splits)

lemma dom_fold_upd:
  "dom (fold (\<lambda>x m. m(f x \<mapsto> g x)) xs m) = dom m \<union> f ` set xs"
  by (induction xs arbitrary: m) auto

lemma account_balance_cash:
  "acc_type acc = ''cash'' \<Longrightarrow>
   account_balance d acc =
     \<lparr>b_name = acc_name acc, b_type = ''cash'', b_balance = spec_cash_balance d,
      b_sales_income = spec_cash_balance d, b_non_sales_income = 0, b_expenses = 0\<rparr>"
  by (simp add: account_balance_def spec_cash_balance_def or_0_sql_sum Let_def comp_def)

lemma account_balance_cash_frame:
  "acc_type acc = ''cash'' \<Longrightarrow> daily_reports d' = daily_reports d \<Longrightarrow>
   account_balance d' acc = account_balance d acc"
  by (simp add: account_balance_def)

lemma account_balance_other:
  "acc_type acc \<noteq> ''cash'' \<Longrightarrow>
   account_balance d acc =
     \<lparr>b_name = acc_name acc, b_type = acc_type acc,
      b_balance =
        (\<Sum>p\<leftarrow>filter (\<lambda>p. rp_account_id p = acc_id acc) (report_payments d). rp_net_amount p)
        + (\<Sum>l\<leftarrow>filter (\<lambda>l. ln_account_id l = acc_id acc) (non_sales_income d). ln_amount l)
        - (\<Sum>l\<leftarrow>filter (\<lambda>l. ln_account_id l = acc_id acc) (report_expenses d). ln_amount l),
      b_sales_income =
        (\<Sum>p\<leftarrow>filter (\<lambda>p. rp_account_id p = acc_id acc) (report_payments d). rp_net_amount p),
      b_non_sales_income =
        (\<Sum>l\<leftarrow>filter (\<lambda>l. ln_account_id l = acc_id acc) (non_sales_income d). ln_amount l),
      b_expenses =
        (\<Sum>l\<leftarrow>filter (\<lambda>l. ln_account_id l = acc_id acc) (report_expenses d). ln_amount l)\<rparr>"
  by (simp add: account_balance_def or_0_sql_sum_Some Let_def)

lemma dom_get_account_balance:
  "dom (get_account_balance d) = set (map acc_id (filter acc_is_active (accounts d)))"
  by (auto simp: get_account_balance_def dom_fold_upd set_get_accounts_None)

lemma set_get_accounts:
  "set (get_accounts d t) \<subseteq> set (filter acc_is_active (accounts d))"
  by (auto simp: get_accounts_def split: option.splits)


lemma next_id_Nil [simp]: "next_id [] = 1"
  by (simp add: next_id_def)

lemma cash_difference_consistent_iff:
  "cash_difference_consistent r \<longleftrightarrow>
     (\<forall>a e. dr_cash_actual r = Some a \<and> dr_cash_expected r = Some e
        \<longrightarrow> dr_cash_difference r = Some (a - e))"
  by (auto simp: cash_difference_consistent_def split: option.splits)

lemma less_next_id: "i \<in> set ids \<Longrightarrow> i < next_id ids"
proof -
  assume "i \<in> set ids"
  then have "i \<le> Max (set (0 # ids))" by simp
  also have "\<dots> = fold max ids 0" by (rule Max.set_eq_fold)
  finally show ?thesis by (simp add: next_id_def)
qed

lemma next_id_notin: "next_id (map f xs) \<notin> f ` set xs"
  using less_next_id [of "next_id (map f xs)" "map f xs"] by auto

lemma add_payments_frame [simp]:
  "accounts (add_payments d rid ps) = accounts d"
  "payment_methods (add_payments d rid ps) = payment_methods d"
  "locations (add_payments d rid ps) = locations d"
  "daily_reports (add_payments d rid ps) = daily_reports d"
  "non_sales_income (add_payments d rid ps) = non_sales_income d"
  "report_expenses (add_payments d rid ps) = report_expenses d"
  by (induction d rid ps rule: add_payments.induct;
      simp add: add_report_payment_def Let_def split: option.splits)+

lemma add_expenses_frame [simp]:
  "accounts (add_expenses d rid es) = accounts d"
  "payment_methods (add_expenses d rid es) = payment_methods d"
  "locations (add_expenses d rid es) = locations d"
  "daily_reports (add_expenses d rid es) = daily_reports d"
  "non_sales_income (add_expenses d rid es) = non_sales_income d"
  "report_payments (add_expenses d rid es) = report_payments d"
  by (induction d rid es rule: add_expenses.induct;
      simp add: add_report_expense_def Let_def)+

lemma add_incomes_frame [simp]:
  "accounts (add_incomes d rid xs) = accounts d"
  "payment_methods (add_incomes d rid xs) = payment_methods d"
  "locations (add_incomes d rid xs) = locations d"
  "daily_reports (add_incomes d rid xs) = daily_reports d"
  "report_expenses (add_incomes d rid xs) = report_expenses d"
  "report_payments (add_incomes d rid xs) = report_payments d"
  by (induction d rid xs rule: add_incomes.induct;
      simp add: add_non_sales_income_def Let_def)+

lemma create_daily_report_Inr:
  "create_daily_report d dt l t c = Inr (i, d') \<Longrightarrow>
     i = next_id (map dr_id (daily_reports d))
     \<and> d' = d\<lparr>daily_reports := daily_reports d @ [new_report d dt l t c]\<rparr>
     \<and> (dt, l) \<notin> set (map (\<lambda>r. (dr_report_date r, dr_location_id r)) (daily_reports d))"
  by (auto simp: create_daily_report_def new_report_def Let_def split: if_splits)

lemma map_upd_new_report:
  "map (\<lambda>r. if dr_id r = next_id (map dr_id rs) then g r else r) rs = rs"
  by (rule map_idI) (use less_next_id [of _ "map dr_id rs"] in force)


lemma create_report_daily_reports:
  "daily_reports (snd (create_report d rq)) = daily_reports d
   \<or> (\<exists>dt. rq_report_date rq = Some dt
          \<and> (dt, rq_location_id rq)
                \<notin> set (map (\<lambda>r. (dr_report_date r, dr_location_id r)) (daily_reports d))
          \<and> (daily_reports (snd (create_report d rq)) =
                daily_reports d @
                  [new_report d dt (rq_location_id rq) (rq_total_sales rq) (rq_created_by rq)]
              \<or> (\<exists>c. rq_cash_actual rq = Some c \<and> 0 < c
                    \<and> daily_reports (snd (create_report d rq)) =
                        daily_reports d @
                          [(new_report d dt (rq_location_id rq) (rq_total_sales rq)
                              (rq_created_by rq))
                             \<lparr>dr_cash_actual := Some c, dr_status := Closed\<rparr>])))"
proof (cases "rq_report_date rq")
  case None
  then show ?thesis by (simp add: create_report_def)
next
  case (Some dt)
  show ?thesis
  proof (cases "get_daily_report d dt (rq_location_id rq)")
    case (Some a)
    with \<open>rq_report_date rq = Some dt\<close> show ?thesis by (simp add: create_report_def)
  next
    case None
    show ?thesis
    proof (cases "create_daily_report d dt (rq_location_id rq) (rq_total_sales rq) (rq_created_by rq)")
      case (Inl e)
      with None \<open>rq_report_date rq = Some dt\<close> show ?thesis by (simp add: create_report_def)
    next
      case (Inr p)
      obtain i d1 where p: "p = (i, d1)" by (cases p)
      note c = create_daily_report_Inr [OF Inr [unfolded p]]
      have nid: "dr_id (new_report d dt (rq_location_id rq) (rq_total_sales rq) (rq_created_by rq))
                  = next_id (map dr_id (daily_reports d))"
        by (simp add: new_report_def)
      show ?thesis
        using None \<open>rq_report_date rq = Some dt\<close> Inr p c nid
        by (auto simp: create_report_def Let_def map_upd_new_report split: option.splits)
    qed
  qed
qed


lemma update_payment_methods_order_frame [simp]:
  "daily_reports (update_payment_methods_order d ids) = daily_reports d"
proof -
  have "daily_reports (fold (\<lambda>(order, method_id) d'.
             d'\<lparr>payment_methods :=
                 map (\<lambda>m. if pm_id m = method_id then m\<lparr>pm_display_order := int order\<rparr> else m)
                     (payment_methods d')\<rparr>) xs d) = daily_reports d" for xs
    by (induction xs arbitrary: d) (auto split: prod.splits)
  then show ?thesis by (simp add: update_payment_methods_order_def)
qed

lemma exec_daily_reports_frame:
  "\<not> touches_reports operation \<Longrightarrow> daily_reports (exec operation d) = daily_reports d"
  by (cases operation)
     (auto simp: touches_reports_def add_account_def update_account_def delete_account_def
        add_payment_method_def update_payment_method_def delete_payment_method_def
        update_payment_method_default_account_def add_location_def update_location_def
        delete_location_def add_report_payment_def add_non_sales_income_def
        add_report_expense_def Let_def)

lemma exec_preserves_cash_difference:
  assumes "\<forall>r \<in> set (daily_reports d). cash_difference_consistent r"
  shows "\<forall>r \<in> set (daily_reports (exec operation d)). cash_difference_consistent r"
proof (cases "touches_reports operation")
  case False
  with assms show ?thesis by (simp add: exec_daily_reports_frame)
next
  case True
  then show ?thesis
  proof (cases operation)
    case (CreateDailyReport dt l t c)
    with assms show ?thesis
      by (auto simp: create_daily_report_def Let_def cash_difference_consistent_iff)
  next
    case (UpdateReportCash r e a b)
    with assms show ?thesis
      by (auto simp: update_report_cash_def Let_def cash_difference_consistent_iff)
  next
    case (CloseReport r now)
    with assms show ?thesis
      by (auto simp: close_report_def cash_difference_consistent_iff)
  next
    case (CreateReport request)
    with assms create_report_daily_reports [of d request] show ?thesis
      by (auto simp: cash_difference_consistent_iff new_report_def)
  qed (simp_all add: touches_reports_def)
qed

lemma reachable_cash_difference:
  "reachable d \<Longrightarrow> \<forall>r \<in> set (daily_reports d). cash_difference_consistent r"
proof (induction rule: reachable.induct)
  case reachable_init
  show ?case by (simp add: init_database_def)
next
  case (reachable_exec d operation)
  then show ?case by (intro exec_preserves_cash_difference)
qed

lemma exec_preserves_unique_report:
  assumes "distinct (map (\<lambda>r. (dr_report_date r, dr_location_id r)) (daily_reports d))"
  shows "distinct (map (\<lambda>r. (dr_report_date r, dr_location_id r)) (daily_reports (exec operation d)))"
proof (cases "touches_reports operation")
  case False
  with assms show ?thesis by (simp add: exec_daily_reports_frame)
next
  case True
  then show ?thesis
  proof (cases operation)
    case (CreateDailyReport dt l t c)
    with assms show ?thesis
      by (auto simp: create_daily_report_def Let_def)
  next
    case (UpdateReportCash r e a b)
    have "map (\<lambda>r. (dr_report_date r, dr_location_id r)) (daily_reports (update_report_cash d r e a b))
          = map (\<lambda>r. (dr_report_date r, dr_location_id r)) (daily_reports d)"
      by (simp add: update_report_cash_def Let_def comp_def if_distrib cong: if_cong)
    with assms UpdateReportCash show ?thesis by simp
  next
    case (CloseReport r now)
    have "map (\<lambda>r. (dr_report_date r, dr_location_id r)) (daily_reports (close_report d r now))
          = map (\<lambda>r. (dr_report_date r, dr_location_id r)) (daily_reports d)"
      by (simp add: close_report_def comp_def if_distrib cong: if_cong)
    with assms CloseReport show ?thesis by simp
  next
    case (CreateReport request)
    with assms create_report_daily_reports [of d request] show ?thesis
      by (auto simp: new_report_def)
  qed (simp_all add: touches_reports_def)
qed

lemma reachable_unique_report:
  "reachable d \<Longrightarrow> distinct (map (\<lambda>r. (dr_report_date r, dr_location_id r)) (daily_reports d))"
proof (induction rule: reachable.induct)
  case reachable_init
  show ?case by (simp add: init_database_def)
next
  case (reachable_exec d operation)
  then show ?case by (intro exec_preserves_unique_report)
qed



lemma ball_map_upd:
  "(\<And>x. Q (g x)) \<Longrightarrow> \<forall>r \<in> set (map (\<lambda>x. if P x then g x else x) xs). P r \<longrightarrow> Q r"
  by (induction xs) simp_all

lemma daily_reports_update_report_cash:
  "daily_reports (update_report_cash d report_id cash_expected cash_actual cash_breakdown) =
     map (\<lambda>r. if dr_id r = report_id
               then r\<lparr>dr_cash_expected := Some cash_expected,
                      dr_cash_actual := Some cash_actual,
                      dr_cash_difference := Some (cash_actual - cash_expected),
                      dr_cash_breakdown := Some cash_breakdown\<rparr>
               else r) (daily_reports d)"
  by (simp add: update_report_cash_def Let_def)

lemma create_report_Inr:
  assumes "create_report d rq = (Inr rid, d')"
  shows "\<exists>dt es xs c.
     rq_report_date rq = Some dt \<and> rq_expenses rq = Some es \<and> rq_incomes rq = Some xs
     \<and> rq_cash_actual rq = Some c
     \<and> rid = next_id (map dr_id (daily_reports d))
     \<and> d' = (let r = new_report d dt (rq_location_id rq) (rq_total_sales rq) (rq_created_by rq);
                  d4 = add_incomes (add_expenses (add_payments
                         (d\<lparr>daily_reports := daily_reports d @ [r]\<rparr>) rid (rq_payments rq))
                         rid es) rid xs
              in if 0 < c
                 then d4\<lparr>daily_reports :=
                          daily_reports d @ [r\<lparr>dr_cash_actual := Some c, dr_status := Closed\<rparr>]\<rparr>
                 else d4)"
proof -
  from assms obtain dt where dt: "rq_report_date rq = Some dt"
    by (cases "rq_report_date rq") (auto simp: create_report_def)
  from assms dt have g: "get_daily_report d dt (rq_location_id rq) = None"
    by (cases "get_daily_report d dt (rq_location_id rq)") (auto simp: create_report_def)
  from assms dt g obtain i d1 where
    c: "create_daily_report d dt (rq_location_id rq) (rq_total_sales rq) (rq_created_by rq)
          = Inr (i, d1)"
    by (cases "create_daily_report d dt (rq_location_id rq) (rq_total_sales rq) (rq_created_by rq)")
       (auto simp: create_report_def)
  note c' = create_daily_report_Inr [OF c]
  from assms dt g c obtain es where es: "rq_expenses rq = Some es"
    by (cases "rq_expenses rq") (auto simp: create_report_def Let_def)
  from assms dt g c es obtain xs where xs: "rq_incomes rq = Some xs"
    by (cases "rq_incomes rq") (auto simp: create_report_def Let_def)
  from assms dt g c es xs obtain ca where ca: "rq_cash_actual rq = Some ca"
    by (cases "rq_cash_actual rq") (auto simp: create_report_def Let_def)
  have nid: "dr_id (new_report d dt (rq_location_id rq) (rq_total_sales rq) (rq_created_by rq))
              = next_id (map dr_id (daily_reports d))"
    by (simp add: new_report_def)
  from assms dt g c es xs ca c' nid show ?thesis
    by (auto simp: create_report_def Let_def map_upd_new_report split: if_splits)
qed

lemma get_payment_methods_frame:
  "payment_methods d' = payment_methods d \<Longrightarrow> get_payment_methods d' t = get_payment_methods d t"
  by (auto simp: get_payment_methods_def split: option.splits)

lemma find_get_payment_methods_None:
  "find (\<lambda>m. pm_id m = k) (get_payment_methods d None) = None
     \<longleftrightarrow> k \<notin> set (map pm_id (filter pm_is_active (payment_methods d)))"
  by (auto simp: find_None_iff get_payment_methods_def)

lemma add_payments_rows:
  "\<exists>new. report_payments (add_payments d rid ps) = report_payments d @ new
     \<and> map (\<lambda>r. (rp_report_id r, rp_payment_method_id r, rp_amount r)) new =
         map (\<lambda>p. (rid, pe_method_id p, pe_amount p))
           (filter (\<lambda>p. 0 < pe_amount p
                      \<and> pe_method_id p \<in> set (map pm_id (filter pm_is_active (payment_methods d))))
              ps)"
proof (induction ps arbitrary: d)
  case Nil
  show ?case by simp
next
  case (Cons p ps)
  show ?case
  proof (cases "0 < pe_amount p")
    case False
    with Cons.IH [of d] show ?thesis by simp
  next
    case True
    show ?thesis
    proof (cases "find (\<lambda>m. pm_id m = pe_method_id p) (get_payment_methods d None)")
      case None
      then have "pe_method_id p \<notin> set (map pm_id (filter pm_is_active (payment_methods d)))"
        using find_get_payment_methods_None [of "pe_method_id p" d] by blast
      with None True Cons.IH [of d] show ?thesis by simp
    next
      case (Some m)
      then have k: "pe_method_id p \<in> set (map pm_id (filter pm_is_active (payment_methods d)))"
        using find_get_payment_methods_None [of "pe_method_id p" d] by fastforce
      let ?d = "snd (add_report_payment d rid (pe_method_id p) (pm_default_account_id m) (pe_amount p))"
      have pm: "payment_methods ?d = payment_methods d"
        by (simp add: add_report_payment_def Let_def)
      obtain r where r: "report_payments ?d = report_payments d @ [r]"
        "rp_report_id r = rid" "rp_payment_method_id r = pe_method_id p" "rp_amount r = pe_amount p"
        by (simp add: add_report_payment_def Let_def)
      from Cons.IH [of ?d] obtain new where
        new: "report_payments (add_payments ?d rid ps) = report_payments ?d @ new"
          "map (\<lambda>r. (rp_report_id r, rp_payment_method_id r, rp_amount r)) new =
            map (\<lambda>p. (rid, pe_method_id p, pe_amount p))
              (filter (\<lambda>p. 0 < pe_amount p
                      \<and> pe_method_id p \<in> set (map pm_id (filter pm_is_active (payment_methods d))))
                 ps)"
        unfolding pm by blast
      have "report_payments (add_payments d rid (p # ps)) = report_payments d @ (r # new)"
        using True Some new(1) r(1) by simp
      moreover have "map (\<lambda>r. (rp_report_id r, rp_payment_method_id r, rp_amount r)) (r # new) =
            map (\<lambda>p. (rid, pe_method_id p, pe_amount p))
              (filter (\<lambda>p. 0 < pe_amount p
                      \<and> pe_method_id p \<in> set (map pm_id (filter pm_is_active (payment_methods d))))
                 (p # ps))"
        using True k new(2) r(2-4) by simp
      ultimately show ?thesis by blast
    qed
  qed
qed

lemma add_expenses_rows:
  "\<exists>new. report_expenses (add_expenses d rid es) = report_expenses d @ new
     \<and> map (\<lambda>l. (ln_report_id l, ln_category_id l, ln_account_id l, ln_amount l,
                  ln_description l)) new =
         map (\<lambda>e. (rid, ee_category_id e, 1, ee_amount e, ee_description e))
           (filter (\<lambda>e. 0 < ee_amount e) es)"
proof (induction es arbitrary: d)
  case Nil
  show ?case by simp
next
  case (Cons e es)
  show ?case
  proof (cases "0 < ee_amount e")
    case False
    with Cons.IH [of d] show ?thesis by simp
  next
    case True
    let ?d = "snd (add_report_expense d rid 1 (ee_amount e) (ee_category_id e) (ee_description e))"
    obtain r where r: "report_expenses ?d = report_expenses d @ [r]"
      "(ln_report_id r, ln_category_id r, ln_account_id r, ln_amount r, ln_description r)
         = (rid, ee_category_id e, 1, ee_amount e, ee_description e)"
      by (simp add: add_report_expense_def Let_def)
    from Cons.IH [of ?d] obtain new where
      new: "report_expenses (add_expenses ?d rid es) = report_expenses ?d @ new"
        "map (\<lambda>l. (ln_report_id l, ln_category_id l, ln_account_id l, ln_amount l,
                  ln_description l)) new =
         map (\<lambda>e. (rid, ee_category_id e, 1, ee_amount e, ee_description e))
           (filter (\<lambda>e. 0 < ee_amount e) es)"
      by blast
    have "report_expenses (add_expenses d rid (e # es)) = report_expenses d @ (r # new)"
      using True new(1) r(1) by simp
    moreover have "map (\<lambda>l. (ln_report_id l, ln_category_id l, ln_account_id l, ln_amount l,
                  ln_description l)) (r # new) =
         map (\<lambda>e. (rid, ee_category_id e, 1, ee_amount e, ee_description e))
           (filter (\<lambda>e. 0 < ee_amount e) (e # es))"
      using True new(2) r(2) by simp
    ultimately show ?thesis by blast
  qed
qed

lemma add_incomes_rows:
  "\<exists>new. non_sales_income (add_incomes d rid xs) = non_sales_income d @ new
     \<and> map (\<lambda>l. (ln_report_id l, ln_category_id l, ln_account_id l, ln_amount l,
                  ln_description l)) new =
         map (\<lambda>e. (rid, ie_category_id e, 1, ie_amount e, ie_description e))
           (filter (\<lambda>e. 0 < ie_amount e) xs)"
proof (induction xs arbitrary: d)
  case Nil
  show ?case by simp
next
  case (Cons e es)
  show ?case
  proof (cases "0 < ie_amount e")
    case False
    with Cons.IH [of d] show ?thesis by simp
  next
    case True
    let ?d = "snd (add_non_sales_income d rid 1 (ie_amount e) (ie_category_id e) (ie_description e))"
    obtain r where r: "non_sales_income ?d = non_sales_income d @ [r]"
      "(ln_report_id r, ln_category_id r, ln_account_id r, ln_amount r, ln_description r)
         = (rid, ie_category_id e, 1, ie_amount e, ie_description e)"
      by (simp add: add_non_sales_income_def Let_def)
    from Cons.IH [of ?d] obtain new where
      new: "non_sales_income (add_incomes ?d rid es) = non_sales_income ?d @ new"
        "map (\<lambda>l. (ln_report_id l, ln_category_id l, ln_account_id l, ln_amount l,
                  ln_description l)) new =
         map (\<lambda>e. (rid, ie_category_id e, 1, ie_amount e, ie_description e))
           (filter (\<lambda>e. 0 < ie_amount e) es)"
      by blast
    have "non_sales_income (add_incomes d rid (e # es)) = non_sales_income d @ (r # new)"
      using True new(1) r(1) by simp
    moreover have "map (\<lambda>l. (ln_report_id l, ln_category_id l, ln_account_id l, ln_amount l,
                  ln_description l)) (r # new) =
         map (\<lambda>e. (rid, ie_category_id e, 1, ie_amount e, ie_description e))
           (filter (\<lambda>e. 0 < ie_amount e) (e # es))"
      using True new(2) r(2) by simp
    ultimately show ?thesis by blast
  qed
qed

lemma add_payments_positive:
  "add_payments d rid (filter (\<lambda>p. 0 < pe_amount p) ps) = add_payments d rid ps"
  by (induction d rid ps rule: add_payments.induct) (simp_all split: option.splits)

lemma add_expenses_positive:
  "add_expenses d rid (filter (\<lambda>e. 0 < ee_amount e) es) = add_expenses d rid es"
  by (induction d rid es rule: add_expenses.induct) simp_all

lemma add_incomes_positive:
  "add_incomes d rid (filter (\<lambda>e. 0 < ie_amount e) xs) = add_incomes d rid xs"
  by (induction d rid xs rule: add_incomes.induct) simp_all

lemmas eval_create_report =
  create_report_def get_daily_report_def create_daily_report_def get_payment_methods_def
  add_report_payment_def add_report_expense_def add_non_sales_income_def Let_def next_id_def

lemma list_all2_map_upd:
  "(\<And>x. P x \<Longrightarrow> R x (g x)) \<Longrightarrow> (\<And>x. \<not> P x \<Longrightarrow> R x x) \<Longrightarrow>
   list_all2 R xs (map (\<lambda>x. if P x then g x else x) xs)"
  by (induction xs) simp_all

lemma create_report_Inr_daily_reports:
  assumes "create_report d rq = (Inr rid, d')" and "rq_cash_actual rq = Some c"
  shows "\<exists>r. daily_reports d' = daily_reports d @ [r] \<and> dr_id r = rid
           \<and> dr_cash_expected r = None \<and> dr_cash_difference r = None \<and> dr_closed_at r = None
           \<and> (if 0 < c then dr_cash_actual r = Some c \<and> dr_status r = Closed
               else dr_cash_actual r = None \<and> dr_status r = Open)"
proof -
  from create_report_Inr [OF assms(1)] assms(2) show ?thesis
    by (cases "0 < c") (auto simp: Let_def new_report_def)
qed

lemma create_report_positive:
  "create_report d
     (request\<lparr>rq_payments := filter (\<lambda>p. 0 < pe_amount p) (rq_payments request),
              rq_expenses := map_option (filter (\<lambda>e. 0 < ee_amount e)) (rq_expenses request),
              rq_incomes := map_option (filter (\<lambda>e. 0 < ie_amount e)) (rq_incomes request)\<rparr>)
   = create_report d request"
  by (simp add: create_report_def Let_def add_payments_positive add_expenses_positive
      add_incomes_positive split: option.splits sum.splits)

lemma create_report_Inr_rows:
  assumes "create_report d rq = (Inr rid, d')"
  shows "\<exists>es xs new_payments new_expenses new_incomes.
           rq_expenses rq = Some es \<and> rq_incomes rq = Some xs
           \<and> report_payments d' = report_payments d @ new_payments
           \<and> map (\<lambda>r. (rp_report_id r, rp_payment_method_id r, rp_amount r)) new_payments =
               map (\<lambda>p. (rid, pe_method_id p, pe_amount p))
                 (filter (\<lambda>p. 0 < pe_amount p
                    \<and> pe_method_id p \<in> set (map pm_id (filter pm_is_active (payment_methods d))))
                    (rq_payments rq))
           \<and> report_expenses d' = report_expenses d @ new_expenses
           \<and> map (\<lambda>l. (ln_report_id l, ln_category_id l, ln_account_id l, ln_amount l,
                        ln_description l)) new_expenses =
               map (\<lambda>e. (rid, ee_category_id e, 1, ee_amount e, ee_description e))
                 (filter (\<lambda>e. 0 < ee_amount e) es)
           \<and> non_sales_income d' = non_sales_income d @ new_incomes
           \<and> map (\<lambda>l. (ln_report_id l, ln_category_id l, ln_account_id l, ln_amount l,
                        ln_description l)) new_incomes =
               map (\<lambda>e. (rid, ie_category_id e, 1, ie_amount e, ie_description e))
                 (filter (\<lambda>e. 0 < ie_amount e) xs)"
proof -
  from create_report_Inr [OF assms] obtain dt es xs c where
    es: "rq_expenses rq = Some es" and xs: "rq_incomes rq = Some xs"
    and d': "d' = (let r = new_report d dt (rq_location_id rq) (rq_total_sales rq) (rq_created_by rq);
                  d4 = add_incomes (add_expenses (add_payments
                         (d\<lparr>daily_reports := daily_reports d @ [r]\<rparr>) rid (rq_payments rq))
                         rid es) rid xs
              in if 0 < c
                 then d4\<lparr>daily_reports :=
                          daily_reports d @ [r\<lparr>dr_cash_actual := Some c, dr_status := Closed\<rparr>]\<rparr>
                 else d4)"
    by blast
  define d1 where "d1 = d\<lparr>daily_reports := daily_reports d @
    [new_report d dt (rq_location_id rq) (rq_total_sales rq) (rq_created_by rq)]\<rparr>"
  define d2 where "d2 = add_payments d1 rid (rq_payments rq)"
  define d3 where "d3 = add_expenses d2 rid es"
  define d4 where "d4 = add_incomes d3 rid xs"
  have d1: "report_payments d1 = report_payments d" "payment_methods d1 = payment_methods d"
    "report_expenses d1 = report_expenses d" "non_sales_income d1 = non_sales_income d"
    by (simp_all add: d1_def)
  have tables: "report_payments d' = report_payments d4" "report_expenses d' = report_expenses d4"
    "non_sales_income d' = non_sales_income d4"
    unfolding d' d4_def d3_def d2_def d1_def Let_def by (cases "0 < c"; simp)+
  have p: "report_payments d4 = report_payments d2"
    by (simp add: d4_def d3_def)
  have e: "report_expenses d4 = report_expenses d3" "report_expenses d2 = report_expenses d"
    by (simp_all add: d4_def d2_def d1)
  have n: "non_sales_income d3 = non_sales_income d"
    by (simp add: d3_def d2_def d1)
  from add_payments_rows [of d1 rid "rq_payments rq"] obtain new_payments where
    "report_payments d2 = report_payments d @ new_payments"
    "map (\<lambda>r. (rp_report_id r, rp_payment_method_id r, rp_amount r)) new_payments =
               map (\<lambda>p. (rid, pe_method_id p, pe_amount p))
                 (filter (\<lambda>p. 0 < pe_amount p
                    \<and> pe_method_id p \<in> set (map pm_id (filter pm_is_active (payment_methods d))))
                    (rq_payments rq))"
    unfolding d2_def d1 by blast
  moreover from add_expenses_rows [of d2 rid es] obtain new_expenses where
    "report_expenses d3 = report_expenses d @ new_expenses"
    "map (\<lambda>l. (ln_report_id l, ln_category_id l, ln_account_id l, ln_amount l,
                        ln_description l)) new_expenses =
               map (\<lambda>e. (rid, ee_category_id e, 1, ee_amount e, ee_description e))
                 (filter (\<lambda>e. 0 < ee_amount e) es)"
    unfolding d3_def e(2) by blast
  moreover from add_incomes_rows [of d3 rid xs] obtain new_incomes where
    "non_sales_income d4 = non_sales_income d @ new_incomes"
    "map (\<lambda>l. (ln_report_id l, ln_category_id l, ln_account_id l, ln_amount l,
                        ln_description l)) new_incomes =
               map (\<lambda>e. (rid, ie_category_id e, 1, ie_amount e, ie_description e))
                 (filter (\<lambda>e. 0 < ie_amount e) xs)"
    unfolding d4_def n by blast
  ultimately show ?thesis
    using es xs tables p e(1) by (intro exI conjI) simp_all
qed

lemma get_daily_report_None_iff:
  "get_daily_report d dt l = None \<longleftrightarrow>
     \<not> ((dt, l) \<in> set (map (\<lambda>r. (dr_report_date r, dr_location_id r)) (daily_reports d))
        \<and> l \<in> set (map loc_id (locations d)))"
proof -
  define rows where "rows = [(dr, loc_name x). dr \<leftarrow> daily_reports d, x \<leftarrow> locations d,
           dr_location_id dr = loc_id x, dr_report_date dr = dt \<and> dr_location_id dr = l]"
  have "get_daily_report d dt l = None \<longleftrightarrow> rows = []"
    unfolding get_daily_report_def rows_def [symmetric] by (cases rows) simp_all
  also have "rows = [] \<longleftrightarrow> set rows = {}"
    by simp
  also have "set rows = {} \<longleftrightarrow>
      \<not> ((dt, l) \<in> set (map (\<lambda>r. (dr_report_date r, dr_location_id r)) (daily_reports d))
        \<and> l \<in> set (map loc_id (locations d)))"
    unfolding rows_def by (simp add: image_iff) fastforce
  finally show ?thesis .
qed

lemma create_report_duplicate:
  assumes "rq_report_date rq = Some dt"
    and "(dt, rq_location_id rq)
           \<in> set (map (\<lambda>r. (dr_report_date r, dr_location_id r)) (daily_reports d))"
  shows "create_report d rq =
           (Inl (if rq_location_id rq \<in> set (map loc_id (locations d))
                 then Status400_report_exists else Status500 IntegrityError), d)"
proof (cases "get_daily_report d dt (rq_location_id rq)")
  case None
  with assms get_daily_report_None_iff [of d dt "rq_location_id rq"] show ?thesis
    by (simp add: create_report_def create_daily_report_def)
next
  case (Some a)
  with assms get_daily_report_None_iff [of d dt "rq_location_id rq"] show ?thesis
    by (simp add: create_report_def)
qed

lemma filter_key:
  "distinct (map f xs) \<Longrightarrow>
   filter (\<lambda>x. f x = k) xs = (case find (\<lambda>x. f x = k) xs of None \<Rightarrow> [] | Some x \<Rightarrow> [x])"
proof (induction xs)
  case Nil
  show ?case by simp
next
  case (Cons x xs)
  show ?case
  proof (cases "f x = k")
    case True
    with Cons.prems have "k \<notin> f ` set xs" by auto
    then have "filter (\<lambda>x. f x = k) xs = []"
      by (auto simp: filter_empty_conv)
    with True show ?thesis by simp
  next
    case False
    with Cons show ?thesis by simp
  qed
qed

lemma find_key_Some:
  "k \<in> set (map f xs) \<Longrightarrow> \<exists>x. find (\<lambda>x. f x = k) xs = Some x"
  by (cases "find (\<lambda>x. f x = k) xs") (auto simp: find_None_iff)

lemma location_names_key:
  "distinct (map loc_id (locations d)) \<Longrightarrow> location_names d i = [location_name_of d i]"
  by (simp add: location_names_def location_name_of_def filter_key split: option.splits)

lemma concat_map_option:
  "concat (map (\<lambda>x. case f x of None \<Rightarrow> [] | Some y \<Rightarrow> [y]) xs) = List.map_filter f xs"
  by (induction xs) (simp_all add: List.map_filter_simps split: option.splits)

lemma map_Some_map_filter:
  "\<forall>x \<in> set xs. f x \<noteq> None \<Longrightarrow> map Some (List.map_filter f xs) = map f xs"
  by (induction xs) (auto simp: List.map_filter_simps split: option.splits)

lemma mset_sort_date_desc [simp]: "mset (sort_date_desc xs) = mset xs"
  by (simp add: sort_date_desc_def)

lemma sorted_sort_date_desc:
  "sorted_wrt (\<lambda>x y. h_date y \<le> h_date x) (sort_date_desc xs)"
proof -
  have "sorted (map h_date (sort_key h_date (rev xs)))"
    by (rule sorted_sort_key)
  then show ?thesis
    by (simp add: sort_date_desc_def sorted_wrt_rev sorted_map)
qed

lemma line_history_rows:
  assumes "distinct (map dr_id (daily_reports d))" "distinct (map loc_id (locations d))"
  shows "line_history d lines operation_type account_id =
           sort_date_desc (List.map_filter (line_entry d operation_type)
             (filter (\<lambda>l. ln_account_id l = account_id) lines))"
proof -
  have "concat (map (\<lambda>dr. map (\<lambda>loc.
            \<lparr>h_date = dr_report_date dr, h_report_id = ln_report_id row,
             h_amount = Some (ln_amount row), h_description = ln_description row,
             h_operation_type = operation_type, h_location = loc\<rparr>)
            (location_names d (dr_location_id dr)))
          (filter (\<lambda>dr. dr_id dr = ln_report_id row) (daily_reports d)))
        = (case line_entry d operation_type row of None \<Rightarrow> [] | Some e \<Rightarrow> [e])" for row
    using assms
    by (simp add: filter_key location_names_key line_entry_def report_of_def
        split: option.splits)
  then show ?thesis
    by (simp add: line_history_def concat_map_option)
qed

lemma payment_history_rows:
  assumes "distinct (map dr_id (daily_reports d))" "distinct (map loc_id (locations d))"
    "distinct (map pm_id (payment_methods d))"
  shows "payment_history d account_id =
           sort_date_desc (List.map_filter (payment_entry_of d)
             (filter (\<lambda>p. rp_account_id p = account_id) (report_payments d)))"
proof -
  have "concat (map (\<lambda>dr. concat (map (\<lambda>pm. map (\<lambda>loc.
            \<lparr>h_date = dr_report_date dr, h_report_id = rp_report_id rp,
             h_amount = Some (rp_net_amount rp), h_description = pm_name pm,
             h_operation_type = ''+'', h_location = loc\<rparr>)
            (location_names d (dr_location_id dr)))
          (filter (\<lambda>pm. pm_id pm = rp_payment_method_id rp) (payment_methods d))))
          (filter (\<lambda>dr. dr_id dr = rp_report_id rp) (daily_reports d)))
        = (case payment_entry_of d rp of None \<Rightarrow> [] | Some e \<Rightarrow> [e])" for rp
    using assms
    by (simp add: filter_key location_names_key payment_entry_of_def report_of_def
        split: option.splits)
  then show ?thesis
    by (simp add: payment_history_def concat_map_option)
qed

lemma cash_history_rows:
  assumes "distinct (map loc_id (locations d))"
  shows "cash_history d =
           sort_date_desc (map (cash_entry d)
             (filter (\<lambda>r. dr_status r = Closed) (daily_reports d)))"
proof -
  have "concat (map (\<lambda>dr. map (\<lambda>loc.
            \<lparr>h_date = dr_report_date dr, h_report_id = dr_id dr, h_amount = dr_cash_actual dr,
             h_description = cash_sales_description, h_operation_type = ''+'',
             h_location = loc\<rparr>) (location_names d (dr_location_id dr))) rs)
        = map (cash_entry d) rs" for rs
    using assms by (induction rs) (simp_all add: location_names_key cash_entry_def)
  then show ?thesis
    by (simp add: cash_history_def)
qed

lemma line_entry_Some:
  "ln_report_id l \<in> set (map dr_id (daily_reports d)) \<Longrightarrow> line_entry d operation_type l \<noteq> None"
  using find_key_Some [of "ln_report_id l" dr_id "daily_reports d"]
  by (auto simp: line_entry_def report_of_def)

lemma payment_entry_of_Some:
  "rp_report_id p \<in> set (map dr_id (daily_reports d)) \<Longrightarrow>
   rp_payment_method_id p \<in> set (map pm_id (payment_methods d)) \<Longrightarrow>
   payment_entry_of d p \<noteq> None"
  using find_key_Some [of "rp_report_id p" dr_id "daily_reports d"]
    find_key_Some [of "rp_payment_method_id p" pm_id "payment_methods d"]
  by (auto simp: payment_entry_of_def report_of_def)

lemma round_half_even_error: "\<bar>of_int (round_half_even x) - x\<bar> \<le> 1 / 2"
proof -
  have "of_int \<lfloor>x\<rfloor> \<le> x" "x < of_int \<lfloor>x\<rfloor> + 1"
    by linarith+
  then show ?thesis
    by (auto simp: round_half_even_def Let_def abs_le_iff)
qed

lemma exponent_le:
  assumes "x \<noteq> 0"
  shows "2 powi (exponent x) \<le> \<bar>x\<bar>"
proof (cases "1 \<le> \<bar>x\<bar>")
  case True
  then have pos: "0 < \<lfloor>\<bar>x\<bar>\<rfloor>" by linarith
  from bitlen_bounds [OF pos] have "2 ^ nat (bitlen \<lfloor>\<bar>x\<bar>\<rfloor> - 1) \<le> \<lfloor>\<bar>x\<bar>\<rfloor>" ..
  then have "(2::real) ^ nat (bitlen \<lfloor>\<bar>x\<bar>\<rfloor> - 1) \<le> of_int \<lfloor>\<bar>x\<bar>\<rfloor>"
    by (metis of_int_le_iff of_int_numeral of_int_power)
  also have "\<dots> \<le> \<bar>x\<bar>" by linarith
  finally have "(2::real) ^ nat (bitlen \<lfloor>\<bar>x\<bar>\<rfloor> - 1) \<le> \<bar>x\<bar>" .
  moreover from pos have "1 \<le> bitlen \<lfloor>\<bar>x\<bar>\<rfloor>"
    by (auto simp: bitlen_alt_def)
  ultimately show ?thesis
    using True by (simp add: exponent_def power_int_def)
next
  case False
  with assms have x: "0 < \<bar>x\<bar>" "\<bar>x\<bar> < 1" by auto
  then have "1 < 1 / \<bar>x\<bar>" by simp
  then have pos: "0 < \<lceil>1 / \<bar>x\<bar>\<rceil> - 1" by linarith
  let ?k = "bitlen (\<lceil>1 / \<bar>x\<bar>\<rceil> - 1)"
  from bitlen_bounds [OF pos] have "\<lceil>1 / \<bar>x\<bar>\<rceil> - 1 < 2 ^ nat ?k" ..
  then have "\<lceil>1 / \<bar>x\<bar>\<rceil> \<le> 2 ^ nat ?k" by simp
  then have "of_int \<lceil>1 / \<bar>x\<bar>\<rceil> \<le> (2::real) ^ nat ?k"
    by (metis of_int_le_iff of_int_numeral of_int_power)
  moreover have "1 / \<bar>x\<bar> \<le> of_int \<lceil>1 / \<bar>x\<bar>\<rceil>" by linarith
  ultimately have "1 / \<bar>x\<bar> \<le> 2 ^ nat ?k" by linarith
  with x(1) have "1 / 2 ^ nat ?k \<le> \<bar>x\<bar>"
    by (simp add: field_simps)
  moreover from pos have "1 \<le> ?k"
    by (auto simp: bitlen_alt_def)
  ultimately show ?thesis
    using False by (simp add: exponent_def power_int_def field_simps)
qed

lemma round_double_error:
  "\<bar>round_double x - x\<bar> \<le> max (\<bar>x\<bar> / 2 ^ 53) (1 / 2 ^ 1075)"
proof (cases "x = 0")
  case True
  then show ?thesis by (simp add: round_double_def)
next
  case False
  define e where "e = max (exponent x) (- 1022)"
  define ulp :: real where "ulp = 2 powi (e - 52)"
  have ulp: "0 < ulp" by (simp add: ulp_def)
  have rd: "round_double x = of_int (round_half_even (x / ulp)) * ulp"
    using False by (simp add: round_double_def ulp_def e_def Let_def)
  have "round_double x - x = (of_int (round_half_even (x / ulp)) - x / ulp) * ulp"
    using ulp by (simp add: rd field_simps)
  then have "\<bar>round_double x - x\<bar> = \<bar>of_int (round_half_even (x / ulp)) - x / ulp\<bar> * ulp"
    using ulp by (simp add: abs_mult)
  also have "\<dots> \<le> 1 / 2 * ulp"
    using ulp round_half_even_error [of "x / ulp"] by (intro mult_right_mono) simp_all
  also have "1 / 2 * ulp = 2 powi (e - 53)"
    by (simp add: ulp_def power_int_diff)
  also have "\<dots> \<le> max (\<bar>x\<bar> / 2 ^ 53) (1 / 2 ^ 1075)"
  proof (cases "- 1022 \<le> exponent x")
    case True
    then have "e = exponent x" by (simp add: e_def)
    then have "(2::real) powi (e - 53) = 2 powi (exponent x) / 2 ^ 53"
      by (simp add: power_int_diff)
    also have "\<dots> \<le> \<bar>x\<bar> / 2 ^ 53"
      using exponent_le [OF False] by (simp add: divide_right_mono)
    finally show ?thesis by simp
  next
    case False
    then have "e = - 1022" by (simp add: e_def)
    then have "(2::real) powi (e - 53) = 1 / 2 ^ 1075"
      by (simp add: power_int_minus field_simps)
    then show ?thesis by simp
  qed
  finally show ?thesis .
qed


lemma exponent_less:
  assumes "x \<noteq> 0"
  shows "\<bar>x\<bar> < 2 powi (exponent x + 1)"
proof (cases "1 \<le> \<bar>x\<bar>")
  case True
  then have pos: "0 < \<lfloor>\<bar>x\<bar>\<rfloor>" by linarith
  from bitlen_bounds [OF pos] have "\<lfloor>\<bar>x\<bar>\<rfloor> < 2 ^ nat (bitlen \<lfloor>\<bar>x\<bar>\<rfloor>)" ..
  then have "\<lfloor>\<bar>x\<bar>\<rfloor> + 1 \<le> 2 ^ nat (bitlen \<lfloor>\<bar>x\<bar>\<rfloor>)" by simp
  then have "of_int (\<lfloor>\<bar>x\<bar>\<rfloor> + 1) \<le> (2::real) ^ nat (bitlen \<lfloor>\<bar>x\<bar>\<rfloor>)"
    by (metis of_int_le_iff of_int_numeral of_int_power)
  moreover have "\<bar>x\<bar> < of_int (\<lfloor>\<bar>x\<bar>\<rfloor> + 1)" by linarith
  ultimately have "\<bar>x\<bar> < 2 ^ nat (bitlen \<lfloor>\<bar>x\<bar>\<rfloor>)" by linarith
  moreover from pos have "1 \<le> bitlen \<lfloor>\<bar>x\<bar>\<rfloor>"
    by (auto simp: bitlen_alt_def)
  ultimately show ?thesis
    using True by (simp add: exponent_def power_int_def)
next
  case False
  with assms have x: "0 < \<bar>x\<bar>" "\<bar>x\<bar> < 1" by auto
  then have "1 < 1 / \<bar>x\<bar>" by simp
  then have pos: "0 < \<lceil>1 / \<bar>x\<bar>\<rceil> - 1" by linarith
  let ?k = "bitlen (\<lceil>1 / \<bar>x\<bar>\<rceil> - 1)"
  from pos have k: "1 \<le> ?k"
    by (auto simp: bitlen_alt_def)
  from bitlen_bounds [OF pos] have "2 ^ nat (?k - 1) \<le> \<lceil>1 / \<bar>x\<bar>\<rceil> - 1" ..
  then have "(2::real) ^ nat (?k - 1) \<le> of_int (\<lceil>1 / \<bar>x\<bar>\<rceil> - 1)"
    by (metis of_int_le_iff of_int_numeral of_int_power)
  moreover have "of_int (\<lceil>1 / \<bar>x\<bar>\<rceil> - 1) < 1 / \<bar>x\<bar>" by linarith
  ultimately have "2 ^ nat (?k - 1) < 1 / \<bar>x\<bar>" by linarith
  with x(1) have "\<bar>x\<bar> < 1 / 2 ^ nat (?k - 1)"
    by (simp add: field_simps)
  then show ?thesis
    using False k by (auto simp: exponent_def power_int_def field_simps)
qed

section \<open>The balance engine\<close>

text \<open>
  Claim C1. For every account of type cash in the loop of \<^verbatim>\<open>get_account_balance\<close> (the
  loop runs over \<^verbatim>\<open>self.get_accounts()\<close>), the result has as balance the sum of
  \<^verbatim>\<open>cash_actual\<close> over all closed reports, whatever their location, with \<^verbatim>\<open>sales_income\<close>
  equal to the balance and \<^verbatim>\<open>non_sales_income\<close> and \<^verbatim>\<open>expenses\<close> equal to 0; a row inserted
  into \<^verbatim>\<open>non_sales_income\<close> or \<^verbatim>\<open>report_expenses\<close> against that account leaves its entry as
  it was.
\<close>

theorem cash_balance_is_closed_cash_actual:
  assumes "distinct (map acc_id (accounts d))"
    and "acc \<in> set (get_accounts d None)"
    and "acc_type acc = ''cash''"
  shows "get_account_balance d (acc_id acc) =
           Some \<lparr>b_name = acc_name acc, b_type = ''cash'', b_balance = spec_cash_balance d,
                 b_sales_income = spec_cash_balance d, b_non_sales_income = 0,
                 b_expenses = 0\<rparr>
         \<and> get_account_balance
             (snd (add_non_sales_income d report_id (acc_id acc) amount category_id description))
             (acc_id acc) = get_account_balance d (acc_id acc)
         \<and> get_account_balance
             (snd (add_report_expense d report_id (acc_id acc) amount category_id description))
             (acc_id acc) = get_account_balance d (acc_id acc)"
proof -
  let ?d1 = "snd (add_non_sales_income d report_id (acc_id acc) amount category_id description)"
  let ?d2 = "snd (add_report_expense d report_id (acc_id acc) amount category_id description)"
  have b: "get_account_balance d (acc_id acc) = Some (account_balance d acc)"
    using assms(1,2) by (rule get_account_balance_listed)
  have a1: "accounts ?d1 = accounts d" "daily_reports ?d1 = daily_reports d"
    by (simp_all add: add_non_sales_income_def Let_def)
  have a2: "accounts ?d2 = accounts d" "daily_reports ?d2 = daily_reports d"
    by (simp_all add: add_report_expense_def Let_def)
  have b1: "get_account_balance ?d1 (acc_id acc) = Some (account_balance ?d1 acc)"
    using assms(1,2) by (intro get_account_balance_listed) (simp_all add: a1 get_accounts_frame [OF a1(1)])
  have b2: "get_account_balance ?d2 (acc_id acc) = Some (account_balance ?d2 acc)"
    using assms(1,2) by (intro get_account_balance_listed) (simp_all add: a2 get_accounts_frame [OF a2(1)])
  show ?thesis
    using b b1 b2 account_balance_cash [OF assms(3)]
      account_balance_cash_frame [OF assms(3) a1(2)]
      account_balance_cash_frame [OF assms(3) a2(2)]
    by simp
qed

theorem cash_balance_is_closed_cash_actual_witness:
  "get_account_balance example_db 1 =
     Some \<lparr>b_name = ''Kassa'', b_type = ''cash'', b_balance = 400, b_sales_income = 400,
           b_non_sales_income = 0, b_expenses = 0\<rparr>
   \<and> get_account_balance (snd (add_non_sales_income example_db 1 1 50 None ''deposit'')) 1
       = get_account_balance example_db 1
   \<and> get_account_balance (snd (add_report_expense example_db 1 1 70 None ''taxi'')) 1
       = get_account_balance example_db 1"
proof -
  have l: "\<lparr>acc_id = 1, acc_name = ''Kassa'', acc_type = ''cash'', acc_is_active = True\<rparr>
             \<in> set (get_accounts example_db None)"
    by (simp add: set_get_accounts_None example_db_def)
  have k: "distinct (map acc_id (accounts example_db))"
    by (simp add: example_db_def)
  from cash_balance_is_closed_cash_actual [OF k l, of 1 50 None "''deposit''"]
    cash_balance_is_closed_cash_actual [OF k l, of 1 70 None "''taxi''"]
  show ?thesis
    by (simp add: example_db_def spec_cash_balance_def)
qed

text \<open>
  Claim C2. For every account of type bank in that loop, the balance is the sum of
  \<^verbatim>\<open>net_amount\<close> over the
  payments of the account, plus the sum of \<^verbatim>\<open>amount\<close> over its non-sales income, minus the
  sum of \<^verbatim>\<open>amount\<close> over its expenses, every sum over no row being 0; with no matching row
  at all the balance is 0.
\<close>

theorem bank_balance_is_payments_plus_income_minus_expenses:
  assumes "distinct (map acc_id (accounts d))"
    and "acc \<in> set (get_accounts d None)"
    and "acc_type acc = ''bank''"
  shows "\<exists>e. get_account_balance d (acc_id acc) = Some e
           \<and> b_balance e =
               (\<Sum>p\<leftarrow>filter (\<lambda>p. rp_account_id p = acc_id acc) (report_payments d).
                  rp_net_amount p)
               + (\<Sum>l\<leftarrow>filter (\<lambda>l. ln_account_id l = acc_id acc) (non_sales_income d).
                  ln_amount l)
               - (\<Sum>l\<leftarrow>filter (\<lambda>l. ln_account_id l = acc_id acc) (report_expenses d).
                  ln_amount l)
           \<and> (filter (\<lambda>p. rp_account_id p = acc_id acc) (report_payments d) = []
                \<and> filter (\<lambda>l. ln_account_id l = acc_id acc) (non_sales_income d) = []
                \<and> filter (\<lambda>l. ln_account_id l = acc_id acc) (report_expenses d) = []
              \<longrightarrow> b_balance e = 0)"
proof -
  have "get_account_balance d (acc_id acc) = Some (account_balance d acc)"
    using assms(1,2) by (rule get_account_balance_listed)
  moreover have "acc_type acc \<noteq> ''cash''"
    using assms(3) by simp
  ultimately show ?thesis
    by (simp add: account_balance_other)
qed

theorem bank_balance_is_payments_plus_income_minus_expenses_witness:
  "\<exists>e. get_account_balance example_db 2 = Some e \<and> b_balance e = 470"
  using bank_balance_is_payments_plus_income_minus_expenses
    [of example_db "\<lparr>acc_id = 2, acc_name = ''Bank'', acc_type = ''bank'', acc_is_active = True\<rparr>"]
  by (simp add: set_get_accounts_None example_db_def)

text \<open>
  Claim C10. Any two accounts of type cash in that loop get the same balance, sales
  income, non-sales income and expenses: the aggregation over the closed reports does not
  mention the account.
\<close>

theorem cash_accounts_have_equal_balances:
  assumes "distinct (map acc_id (accounts d))"
    and "acc1 \<in> set (get_accounts d None)" "acc_type acc1 = ''cash''"
    and "acc2 \<in> set (get_accounts d None)" "acc_type acc2 = ''cash''"
  shows "\<exists>e1 e2. get_account_balance d (acc_id acc1) = Some e1
           \<and> get_account_balance d (acc_id acc2) = Some e2
           \<and> b_balance e1 = b_balance e2
           \<and> b_sales_income e1 = b_sales_income e2
           \<and> b_non_sales_income e1 = b_non_sales_income e2
           \<and> b_expenses e1 = b_expenses e2"
proof -
  have "get_account_balance d (acc_id acc1) = Some (account_balance d acc1)"
    using assms(1,2) by (rule get_account_balance_listed)
  moreover have "get_account_balance d (acc_id acc2) = Some (account_balance d acc2)"
    using assms(1,4) by (rule get_account_balance_listed)
  ultimately show ?thesis
    using assms(3,5) by (simp add: account_balance_cash)
qed

theorem cash_accounts_have_equal_balances_witness:
  "\<exists>e1 e2. get_account_balance example_db 1 = Some e1
     \<and> get_account_balance example_db 4 = Some e2
     \<and> b_balance e1 = b_balance e2
     \<and> b_sales_income e1 = b_sales_income e2
     \<and> b_non_sales_income e1 = b_non_sales_income e2
     \<and> b_expenses e1 = b_expenses e2"
  using cash_accounts_have_equal_balances
    [of example_db "\<lparr>acc_id = 1, acc_name = ''Kassa'', acc_type = ''cash'', acc_is_active = True\<rparr>"
        "\<lparr>acc_id = 4, acc_name = ''Safe'', acc_type = ''cash'', acc_is_active = True\<rparr>"]
  by (simp add: set_get_accounts_None example_db_def)

text \<open>
  Claim C9, as the specification states it, fails: the balance engine does not take an
  account id, it loops over \<^verbatim>\<open>get_accounts()\<close>, so a soft-deleted account has no entry in
  its result. In the example store the account 3 is inactive and has none.
\<close>

theorem inactive_account_has_no_balance:
  "\<lparr>acc_id = 3, acc_name = ''Old'', acc_type = ''bank'', acc_is_active = False\<rparr>
     \<in> set (accounts example_db)
   \<and> get_account_balance example_db 3 = None"
proof -
  have "3 \<notin> dom (get_account_balance example_db)"
    unfolding dom_get_account_balance by (simp add: example_db_def)
  then show ?thesis
    by (auto simp: example_db_def)
qed

text \<open>
  Claim C9, amended. The balance engine returns an entry for exactly the active accounts,
  the ones that \<^verbatim>\<open>get_accounts\<close> lists; \<^verbatim>\<open>get_accounts\<close> never lists an inactive account.
\<close>

theorem balances_cover_the_active_accounts:
  "dom (get_account_balance d) = set (map acc_id (filter acc_is_active (accounts d)))
   \<and> set (get_accounts d t) \<subseteq> set (filter acc_is_active (accounts d))"
  using dom_get_account_balance set_get_accounts by blast

theorem balances_cover_the_active_accounts_witness:
  "dom (get_account_balance example_db) = {1, 2, 4}"
  using balances_cover_the_active_accounts [of example_db None]
  by (simp add: example_db_def)

section \<open>The report lifecycle\<close>

text \<open>
  Claim C8. In every reachable store, a report with both \<^verbatim>\<open>cash_actual\<close> and
  \<^verbatim>\<open>cash_expected\<close> set has \<^verbatim>\<open>cash_difference = cash_actual - cash_expected\<close>; and
  \<^verbatim>\<open>update_report_cash\<close> establishes it: it stores both values and their difference on
  the report it is called for.
\<close>

theorem cash_difference_is_actual_minus_expected:
  "(reachable d \<longrightarrow> (\<forall>r \<in> set (daily_reports d). cash_difference_consistent r))
   \<and> (\<forall>r \<in> set (daily_reports
                    (update_report_cash d' report_id cash_expected cash_actual cash_breakdown)).
          dr_id r = report_id \<longrightarrow>
            dr_cash_expected r = Some cash_expected \<and> dr_cash_actual r = Some cash_actual
            \<and> dr_cash_difference r = Some (cash_actual - cash_expected))"
proof
  show "reachable d \<longrightarrow> (\<forall>r \<in> set (daily_reports d). cash_difference_consistent r)"
    using reachable_cash_difference by blast
  show "\<forall>r \<in> set (daily_reports
                    (update_report_cash d' report_id cash_expected cash_actual cash_breakdown)).
          dr_id r = report_id \<longrightarrow>
            dr_cash_expected r = Some cash_expected \<and> dr_cash_actual r = Some cash_actual
            \<and> dr_cash_difference r = Some (cash_actual - cash_expected)"
    unfolding daily_reports_update_report_cash by (rule ball_map_upd) simp
qed

theorem cash_difference_is_actual_minus_expected_witness:
  "reachable example_cash_db
   \<and> map (\<lambda>r. (dr_id r, dr_cash_expected r, dr_cash_actual r, dr_cash_difference r))
         (daily_reports example_cash_db) = [(1, Some 450, Some 400, Some (- 50))]
   \<and> list_all cash_difference_consistent (daily_reports example_cash_db)"
proof -
  have r: "reachable example_cash_db"
    unfolding example_cash_db_def
    by (rule reachable_exec, rule reachable_exec, rule reachable_init)
  have e: "map (\<lambda>r. (dr_id r, dr_cash_expected r, dr_cash_actual r, dr_cash_difference r))
         (daily_reports example_cash_db) = [(1, Some 450, Some 400, Some (- 50))]"
    by (simp add: example_cash_db_def init_database_def create_daily_report_def
        update_report_cash_def Let_def)
  have "\<forall>r \<in> set (daily_reports example_cash_db). cash_difference_consistent r"
    using r cash_difference_is_actual_minus_expected [of example_cash_db] by (rule_tac conjunct1 [THEN mp])
  then have "list_all cash_difference_consistent (daily_reports example_cash_db)"
    by (simp only: list_all_iff)
  with r e show ?thesis by (intro conjI)
qed

text \<open>
  Claim C5, at the input where the code departs from it. A report is created for a
  location id that has no row in \<^verbatim>\<open>locations\<close> (no foreign key is enforced). The second
  request for the same date and location is not answered with the status 400 of the
  duplicate check: \<^verbatim>\<open>get_daily_report\<close> joins \<^verbatim>\<open>locations\<close> and finds nothing, the insertion
  then violates \<^verbatim>\<open>UNIQUE(report_date, location_id)\<close>, and the \<^verbatim>\<open>sqlite3.IntegrityError\<close>
  leaves the endpoint as a status 500. No report is added.
\<close>

theorem duplicate_report_of_unknown_location_is_status_500:
  "create_report init_database request_unknown_location = (Inr 1, store_unknown_location)
   \<and> create_report store_unknown_location request_unknown_location
       = (Inl (Status500 IntegrityError), store_unknown_location)"
  by (simp add: eval_create_report request_unknown_location_def store_unknown_location_def
      init_database_def)

text \<open>
  Claim C6, as the specification states it, fails in its last part: a payment with a
  positive amount whose method is not among the active payment methods is skipped as
  well, without a row and without an error.
\<close>

theorem positive_payment_of_unknown_method_is_skipped:
  "rq_payments request_unknown_method = [\<lparr>pe_method_id = 9, pe_amount = 100\<rparr>]
   \<and> fst (create_report example_db request_unknown_method) = Inr 3
   \<and> report_payments (snd (create_report example_db request_unknown_method))
       = report_payments example_db"
  by (simp add: eval_create_report request_unknown_method_def example_db_def)

text \<open>
  Claim C6, amended. In \<^verbatim>\<open>create_report\<close>, the payments, expenses and incomes whose amount is
  not positive are skipped silently: the response and the store are those of the request
  without them. When the request succeeds, one row is inserted, in order, for every
  expense and every income with a positive amount, and for every payment with a positive
  amount whose method is an active payment method.
\<close>

theorem nonpositive_entries_are_skipped:
  "create_report d request =
     create_report d
       (request\<lparr>rq_payments := filter (\<lambda>p. 0 < pe_amount p) (rq_payments request),
                rq_expenses := map_option (filter (\<lambda>e. 0 < ee_amount e)) (rq_expenses request),
                rq_incomes := map_option (filter (\<lambda>e. 0 < ie_amount e)) (rq_incomes request)\<rparr>)
   \<and> (create_report d request = (Inr report_id, d') \<longrightarrow>
        (\<exists>expenses incomes new_payments new_expenses new_incomes.
           rq_expenses request = Some expenses \<and> rq_incomes request = Some incomes
           \<and> report_payments d' = report_payments d @ new_payments
           \<and> map (\<lambda>r. (rp_report_id r, rp_payment_method_id r, rp_amount r)) new_payments =
               map (\<lambda>p. (report_id, pe_method_id p, pe_amount p))
                 (filter (\<lambda>p. 0 < pe_amount p
                    \<and> pe_method_id p \<in> set (map pm_id (filter pm_is_active (payment_methods d))))
                    (rq_payments request))
           \<and> report_expenses d' = report_expenses d @ new_expenses
           \<and> map (\<lambda>l. (ln_report_id l, ln_category_id l, ln_account_id l, ln_amount l,
                        ln_description l)) new_expenses =
               map (\<lambda>e. (report_id, ee_category_id e, 1, ee_amount e, ee_description e))
                 (filter (\<lambda>e. 0 < ee_amount e) expenses)
           \<and> non_sales_income d' = non_sales_income d @ new_incomes
           \<and> map (\<lambda>l. (ln_report_id l, ln_category_id l, ln_account_id l, ln_amount l,
                        ln_description l)) new_incomes =
               map (\<lambda>e. (report_id, ie_category_id e, 1, ie_amount e, ie_description e))
                 (filter (\<lambda>e. 0 < ie_amount e) incomes)))"
  using create_report_positive [of d request] create_report_Inr_rows [of d request report_id d']
  by (intro conjI impI) simp_all

theorem nonpositive_entries_are_skipped_witness:
  "\<exists>new_payments new_expenses new_incomes.
     report_payments (snd (create_report example_db request_mixed))
       = report_payments example_db @ new_payments
     \<and> map (\<lambda>r. (rp_report_id r, rp_payment_method_id r, rp_amount r)) new_payments
         = [(3, 1, 600)]
     \<and> report_expenses (snd (create_report example_db request_mixed))
         = report_expenses example_db @ new_expenses
     \<and> map (\<lambda>l. (ln_report_id l, ln_category_id l, ln_account_id l, ln_amount l,
                  ln_description l)) new_expenses = [(3, None, 1, 100, ''rent'')]
     \<and> non_sales_income (snd (create_report example_db request_mixed))
         = non_sales_income example_db @ new_incomes
     \<and> map (\<lambda>l. (ln_report_id l, ln_category_id l, ln_account_id l, ln_amount l,
                  ln_description l)) new_incomes = [(3, None, 1, 50, ''deposit'')]"
proof -
  have c: "create_report example_db request_mixed
             = (Inr 3, snd (create_report example_db request_mixed))"
    by (simp add: eval_create_report request_mixed_def example_db_def)
  have m: "set (map pm_id (filter pm_is_active (payment_methods example_db))) = {1, 2}"
    by (simp add: example_db_def)
  from nonpositive_entries_are_skipped
         [of example_db request_mixed 3 "snd (create_report example_db request_mixed)",
          THEN conjunct2, rule_format, OF c]
  show ?thesis
    unfolding m by (simp add: request_mixed_def)
qed

text \<open>
  Claim C7, as the specification states it, fails: no call closes a report with a cash
  count and a \<^verbatim>\<open>closed_at\<close> timestamp. \<^verbatim>\<open>close_report(report_id)\<close> takes no cash count and
  leaves \<^verbatim>\<open>cash_actual\<close> as it is; the \<^verbatim>\<open>UPDATE\<close> of the endpoint stores the cash count and
  the status, and no \<^verbatim>\<open>closed_at\<close>.
\<close>

theorem close_report_sets_no_cash_and_the_endpoint_no_closed_at:
  "map (\<lambda>r. (dr_status r, dr_closed_at r, dr_cash_actual r))
     (daily_reports (close_report example_open_db 1 ''2024-05-01 20:00:00''))
     = [(Closed, Some ''2024-05-01 20:00:00'', None)]
   \<and> map (\<lambda>r. (dr_status r, dr_closed_at r, dr_cash_actual r))
       (daily_reports (snd (create_report init_database request_with_cash)))
     = [(Closed, None, Some 400)]"
  by (simp add: eval_create_report request_with_cash_def example_open_db_def init_database_def
      close_report_def)

text \<open>
  Claim C7, amended. \<^verbatim>\<open>close_report\<close> sets the status of the report to closed and records
  \<^verbatim>\<open>closed_at\<close>; it leaves \<^verbatim>\<open>cash_actual\<close>, \<^verbatim>\<open>cash_expected\<close> and \<^verbatim>\<open>cash_difference\<close> of every
  report unchanged, and the other reports wholly. The endpoint, when it succeeds with a
  cash count above 0, stores the count on the new report and closes it, with
  \<^verbatim>\<open>cash_expected\<close> and \<^verbatim>\<open>cash_difference\<close> unset; with a count of 0 or less the new report
  stays open without a count.
\<close>

theorem close_report_and_the_cash_count_of_the_endpoint:
  "list_all2
     (\<lambda>r r'. dr_cash_actual r' = dr_cash_actual r \<and> dr_cash_expected r' = dr_cash_expected r
              \<and> dr_cash_difference r' = dr_cash_difference r
              \<and> (if dr_id r = report_id then dr_status r' = Closed \<and> dr_closed_at r' = Some now
                  else r' = r))
     (daily_reports d) (daily_reports (close_report d report_id now))
   \<and> (create_report d' request = (Inr new_id, d'') \<and> rq_cash_actual request = Some c
        \<longrightarrow> (\<exists>r. daily_reports d'' = daily_reports d' @ [r] \<and> dr_id r = new_id
                  \<and> dr_cash_expected r = None \<and> dr_cash_difference r = None
                  \<and> (if 0 < c then dr_cash_actual r = Some c \<and> dr_status r = Closed
                      else dr_cash_actual r = None \<and> dr_status r = Open)))"
proof
  have "daily_reports (close_report d report_id now) =
          map (\<lambda>r. if dr_id r = report_id
                    then r\<lparr>dr_status := Closed, dr_closed_at := Some now\<rparr> else r)
              (daily_reports d)"
    by (simp add: close_report_def)
  then show "list_all2
     (\<lambda>r r'. dr_cash_actual r' = dr_cash_actual r \<and> dr_cash_expected r' = dr_cash_expected r
              \<and> dr_cash_difference r' = dr_cash_difference r
              \<and> (if dr_id r = report_id then dr_status r' = Closed \<and> dr_closed_at r' = Some now
                  else r' = r))
     (daily_reports d) (daily_reports (close_report d report_id now))"
    by (simp only:) (rule list_all2_map_upd; simp)
  show "create_report d' request = (Inr new_id, d'') \<and> rq_cash_actual request = Some c
        \<longrightarrow> (\<exists>r. daily_reports d'' = daily_reports d' @ [r] \<and> dr_id r = new_id
                  \<and> dr_cash_expected r = None \<and> dr_cash_difference r = None
                  \<and> (if 0 < c then dr_cash_actual r = Some c \<and> dr_status r = Closed
                      else dr_cash_actual r = None \<and> dr_status r = Open))"
    using create_report_Inr_daily_reports [of d' request new_id d'' c] by blast
qed

theorem close_report_and_the_cash_count_of_the_endpoint_witness:
  "map (\<lambda>r. (dr_status r, dr_cash_actual r, dr_cash_expected r, dr_cash_difference r))
     (daily_reports (close_report example_cash_db 1 ''2024-05-01 20:00:00''))
     = [(Closed, Some 400, Some 450, Some (- 50))]
   \<and> (\<exists>r. daily_reports (snd (create_report init_database request_with_cash)) = [r]
          \<and> dr_id r = 1 \<and> dr_cash_expected r = None \<and> dr_cash_difference r = None
          \<and> dr_cash_actual r = Some 400 \<and> dr_status r = Closed)"
proof -
  have c: "create_report init_database request_with_cash
             = (Inr 1, snd (create_report init_database request_with_cash))"
    by (simp add: eval_create_report request_with_cash_def init_database_def)
  have e: "map (\<lambda>r. (dr_id r, dr_status r, dr_cash_actual r, dr_cash_expected r,
                      dr_cash_difference r)) (daily_reports example_cash_db)
             = [(1, Open, Some 400, Some 450, Some (- 50))]"
    by (simp add: example_cash_db_def init_database_def create_daily_report_def
        update_report_cash_def Let_def)
  note t = close_report_and_the_cash_count_of_the_endpoint
    [of 1 "''2024-05-01 20:00:00''" example_cash_db init_database request_with_cash 1
        "snd (create_report init_database request_with_cash)" 400]
  from e obtain r0 where r0: "daily_reports example_cash_db = [r0]" "dr_id r0 = 1"
    "dr_cash_actual r0 = Some 400" "dr_cash_expected r0 = Some 450"
    "dr_cash_difference r0 = Some (- 50)"
    by (cases "daily_reports example_cash_db") auto
  from t [THEN conjunct1] r0 have
    "map (\<lambda>r. (dr_status r, dr_cash_actual r, dr_cash_expected r, dr_cash_difference r))
     (daily_reports (close_report example_cash_db 1 ''2024-05-01 20:00:00''))
     = [(Closed, Some 400, Some 450, Some (- 50))]"
    by (auto simp: list_all2_Cons1)
  moreover from t [THEN conjunct2] c have
    "\<exists>r. daily_reports (snd (create_report init_database request_with_cash)) = [r]
          \<and> dr_id r = 1 \<and> dr_cash_expected r = None \<and> dr_cash_difference r = None
          \<and> dr_cash_actual r = Some 400 \<and> dr_status r = Closed"
    by (simp add: request_with_cash_def init_database_def)
  ultimately show ?thesis by blast
qed

section \<open>The history engine\<close>

text \<open>
  Claim C4, as the specification states it, fails: for an account of type cash the first
  query reads the closed reports, not the payments, so a payment row of that account is
  not in its history. In the example store the courier payment of 80 goes to the cash
  account 1, whose history has the closed report and the deposit only.
\<close>

theorem payment_of_a_cash_account_is_not_in_its_history:
  "\<lparr>rp_id = 2, rp_report_id = 1, rp_payment_method_id = 2, rp_account_id = 1, rp_amount = 80,
     rp_commission_amount = 0, rp_net_amount = 80\<rparr> \<in> set (report_payments example_db)
   \<and> get_account_history example_db 1 =
       [\<lparr>h_date = ''2024-05-01'', h_report_id = 1, h_amount = Some 400,
         h_description = cash_sales_description, h_operation_type = ''+'',
         h_location = Some ''Shop''\<rparr>,
        \<lparr>h_date = ''2024-05-01'', h_report_id = 1, h_amount = Some 50,
         h_description = ''deposit'', h_operation_type = ''+'', h_location = Some ''Shop''\<rparr>]"
  by (simp add: example_db_def get_account_history_def cash_history_def line_history_def
      location_names_def sort_date_desc_def)

text \<open>
  Claim C4, amended. For an existing account, in a store whose keys hold, the history is
  sorted by date descending and consists of exactly one entry for every row of
  \<^verbatim>\<open>non_sales_income\<close> (operation type \<^verbatim>\<open>+\<close>) and of \<^verbatim>\<open>report_expenses\<close> (operation type
  \<^verbatim>\<open>-\<close>) of the account, also when the account is of type cash, together with one entry
  for every closed report when the account is of type cash, and one entry for every
  payment row of the account otherwise.
\<close>

theorem account_history_is_sorted_and_complete:
  assumes "find (\<lambda>a. acc_id a = account_id) (accounts d) = Some account"
    and "primary_keys d" and "foreign_keys d"
  shows "sorted_wrt (\<lambda>x y. h_date y \<le> h_date x) (get_account_history d account_id)
   \<and> mset (map Some (get_account_history d account_id)) =
       (if acc_type account = ''cash''
        then image_mset (\<lambda>r. Some (cash_entry d r))
               (mset (filter (\<lambda>r. dr_status r = Closed) (daily_reports d)))
        else image_mset (payment_entry_of d)
               (mset (filter (\<lambda>p. rp_account_id p = account_id) (report_payments d))))
       + image_mset (line_entry d ''+'')
           (mset (filter (\<lambda>l. ln_account_id l = account_id) (non_sales_income d)))
       + image_mset (line_entry d ''-'')
           (mset (filter (\<lambda>l. ln_account_id l = account_id) (report_expenses d)))"
proof
  show "sorted_wrt (\<lambda>x y. h_date y \<le> h_date x) (get_account_history d account_id)"
    using assms(1) by (simp add: get_account_history_def Let_def sorted_sort_date_desc)
next
  from assms(2) have pk: "distinct (map dr_id (daily_reports d))"
    "distinct (map loc_id (locations d))" "distinct (map pm_id (payment_methods d))"
    by (simp_all add: primary_keys_def)
  from assms(3) have refs:
    "\<And>l. l \<in> set (non_sales_income d) \<Longrightarrow> ln_report_id l \<in> set (map dr_id (daily_reports d))"
    "\<And>l. l \<in> set (report_expenses d) \<Longrightarrow> ln_report_id l \<in> set (map dr_id (daily_reports d))"
    "\<And>p. p \<in> set (report_payments d) \<Longrightarrow> rp_report_id p \<in> set (map dr_id (daily_reports d))"
    "\<And>p. p \<in> set (report_payments d) \<Longrightarrow>
       rp_payment_method_id p \<in> set (map pm_id (payment_methods d))"
    by (simp_all add: foreign_keys_def list_all_iff)
  have fk:
    "\<forall>l \<in> set (non_sales_income d). line_entry d ''+'' l \<noteq> None"
    "\<forall>l \<in> set (report_expenses d). line_entry d ''-'' l \<noteq> None"
    "\<forall>p \<in> set (report_payments d). payment_entry_of d p \<noteq> None"
    using refs line_entry_Some payment_entry_of_Some by blast+
  have incomes: "mset (map Some (line_history d (non_sales_income d) ''+'' account_id)) =
      image_mset (line_entry d ''+'')
        (mset (filter (\<lambda>l. ln_account_id l = account_id) (non_sales_income d)))"
  proof -
    have "map Some (List.map_filter (line_entry d ''+'')
            (filter (\<lambda>l. ln_account_id l = account_id) (non_sales_income d)))
          = map (line_entry d ''+'') (filter (\<lambda>l. ln_account_id l = account_id) (non_sales_income d))"
      using fk(1) by (intro map_Some_map_filter) simp
    then have "image_mset Some (mset (List.map_filter (line_entry d ''+'')
            (filter (\<lambda>l. ln_account_id l = account_id) (non_sales_income d))))
          = image_mset (line_entry d ''+'')
              (mset (filter (\<lambda>l. ln_account_id l = account_id) (non_sales_income d)))"
      by (metis mset_map)
    then show ?thesis
      by (simp add: line_history_rows [OF pk(1,2)])
  qed
  have expenses: "mset (map Some (line_history d (report_expenses d) ''-'' account_id)) =
      image_mset (line_entry d ''-'')
        (mset (filter (\<lambda>l. ln_account_id l = account_id) (report_expenses d)))"
  proof -
    have "map Some (List.map_filter (line_entry d ''-'')
            (filter (\<lambda>l. ln_account_id l = account_id) (report_expenses d)))
          = map (line_entry d ''-'') (filter (\<lambda>l. ln_account_id l = account_id) (report_expenses d))"
      using fk(2) by (intro map_Some_map_filter) simp
    then have "image_mset Some (mset (List.map_filter (line_entry d ''-'')
            (filter (\<lambda>l. ln_account_id l = account_id) (report_expenses d))))
          = image_mset (line_entry d ''-'')
              (mset (filter (\<lambda>l. ln_account_id l = account_id) (report_expenses d)))"
      by (metis mset_map)
    then show ?thesis
      by (simp add: line_history_rows [OF pk(1,2)])
  qed
  have payments: "mset (map Some (payment_history d account_id)) =
      image_mset (payment_entry_of d)
        (mset (filter (\<lambda>p. rp_account_id p = account_id) (report_payments d)))"
  proof -
    have "map Some (List.map_filter (payment_entry_of d)
            (filter (\<lambda>p. rp_account_id p = account_id) (report_payments d)))
          = map (payment_entry_of d) (filter (\<lambda>p. rp_account_id p = account_id) (report_payments d))"
      using fk(3) by (intro map_Some_map_filter) simp
    then have "image_mset Some (mset (List.map_filter (payment_entry_of d)
            (filter (\<lambda>p. rp_account_id p = account_id) (report_payments d))))
          = image_mset (payment_entry_of d)
              (mset (filter (\<lambda>p. rp_account_id p = account_id) (report_payments d)))"
      by (metis mset_map)
    then show ?thesis
      by (simp add: payment_history_rows [OF pk])
  qed
  have cash: "mset (map Some (cash_history d)) =
      image_mset (\<lambda>r. Some (cash_entry d r))
        (mset (filter (\<lambda>r. dr_status r = Closed) (daily_reports d)))"
    by (simp add: cash_history_rows [OF pk(2)] multiset.map_comp comp_def)
  show "mset (map Some (get_account_history d account_id)) =
       (if acc_type account = ''cash''
        then image_mset (\<lambda>r. Some (cash_entry d r))
               (mset (filter (\<lambda>r. dr_status r = Closed) (daily_reports d)))
        else image_mset (payment_entry_of d)
               (mset (filter (\<lambda>p. rp_account_id p = account_id) (report_payments d))))
       + image_mset (line_entry d ''+'')
           (mset (filter (\<lambda>l. ln_account_id l = account_id) (non_sales_income d)))
       + image_mset (line_entry d ''-'')
           (mset (filter (\<lambda>l. ln_account_id l = account_id) (report_expenses d)))"
    using assms(1) incomes expenses payments cash
    by (simp add: get_account_history_def Let_def)
qed

theorem account_history_is_sorted_and_complete_witness:
  "sorted_wrt (\<lambda>x y. h_date y \<le> h_date x) (get_account_history example_db 1)
   \<and> mset (map Some (get_account_history example_db 1)) =
       {#Some \<lparr>h_date = ''2024-05-01'', h_report_id = 1, h_amount = Some 400,
               h_description = cash_sales_description, h_operation_type = ''+'',
               h_location = Some ''Shop''\<rparr>,
         Some \<lparr>h_date = ''2024-05-01'', h_report_id = 1, h_amount = Some 50,
               h_description = ''deposit'', h_operation_type = ''+'',
               h_location = Some ''Shop''\<rparr>#}
   \<and> sorted_wrt (\<lambda>x y. h_date y \<le> h_date x) (get_account_history example_db 2)
   \<and> mset (map Some (get_account_history example_db 2)) =
       {#Some \<lparr>h_date = ''2024-05-01'', h_report_id = 1, h_amount = Some 570,
               h_description = ''Card'', h_operation_type = ''+'',
               h_location = Some ''Shop''\<rparr>,
         Some \<lparr>h_date = ''2024-05-01'', h_report_id = 1, h_amount = Some 100,
               h_description = ''rent'', h_operation_type = ''-'',
               h_location = Some ''Shop''\<rparr>#}"
proof -
  have pk: "primary_keys example_db"
    by (simp add: primary_keys_def example_db_def)
  have fk: "foreign_keys example_db"
    by (simp add: foreign_keys_def example_db_def)
  have a1: "find (\<lambda>a. acc_id a = 1) (accounts example_db) =
      Some \<lparr>acc_id = 1, acc_name = ''Kassa'', acc_type = ''cash'', acc_is_active = True\<rparr>"
    by (simp add: example_db_def)
  have a2: "find (\<lambda>a. acc_id a = 2) (accounts example_db) =
      Some \<lparr>acc_id = 2, acc_name = ''Bank'', acc_type = ''bank'', acc_is_active = True\<rparr>"
    by (simp add: example_db_def)
  from account_history_is_sorted_and_complete [OF a1 pk fk]
    account_history_is_sorted_and_complete [OF a2 pk fk]
  show ?thesis
    by (simp add: example_db_def cash_entry_def line_entry_def payment_entry_of_def
        report_of_def location_name_of_def)
qed

section \<open>The payment line\<close>

text \<open>
  Claim C3, as the specification states it, fails: the stored values are doubles, and the
  rounded commission and the rounded difference need not add up to the amount again. For
  the amount 0.17 (the double next to it) and a method at 2 percent, the row has the
  commission 0.0034000000000000002 and the net amount 0.16660000000000003; their sum is
  not the amount, neither exactly nor as the machine adds them (0.17000000000000004).
\<close>

theorem commission_and_net_do_not_add_up_in_doubles:
  "round_double (17 / 100) = 6124895493223875 / 36028797018963968
   \<and> rp_amount (last (report_payments (snd (add_report_payment example_percent_db 1 1 2
         (6124895493223875 / 36028797018963968)))))
       = 6124895493223875 / 36028797018963968
   \<and> rp_commission_amount (last (report_payments (snd (add_report_payment example_percent_db
         1 1 2 (6124895493223875 / 36028797018963968)))))
       = 244995819728955 / 72057594037927936
   \<and> rp_net_amount (last (report_payments (snd (add_report_payment example_percent_db 1 1 2
         (6124895493223875 / 36028797018963968)))))
       = 3001198791679699 / 18014398509481984
   \<and> (244995819728955 / 72057594037927936 + 3001198791679699 / 18014398509481984
        \<noteq> (6124895493223875 / 36028797018963968 :: real))
   \<and> round_double (244995819728955 / 72057594037927936 + 3001198791679699 / 18014398509481984)
       = 1531223873305969 / 9007199254740992
   \<and> (1531223873305969 / 9007199254740992 \<noteq> (6124895493223875 / 36028797018963968 :: real))"
  by code_simp

text \<open>
  Claim C3, amended. The row of \<^verbatim>\<open>add_report_payment\<close> has the amount as given; its commission
  is \<^verbatim>\<open>amount * (commission_percent / 100)\<close> in double precision, with the percentage that the
  method has at the insertion and 0 when there is no such method; its net amount is
  \<^verbatim>\<open>amount - commission_amount\<close> in double precision. Commission and net amount add up to
  the amount within the rounding of that one subtraction: the difference is at most
  \<open>2 powi (- 53)\<close> of the net amount (and \<open>2 powi (- 1075)\<close> below the normal range).
\<close>

theorem commission_and_net_add_up_within_rounding:
  "\<exists>row. report_payments
            (snd (add_report_payment d report_id payment_method_id account_id amount))
          = report_payments d @ [row]
     \<and> rp_amount row = amount
     \<and> rp_commission_amount row =
         round_double (amount * round_double
           ((case find (\<lambda>m. pm_id m = payment_method_id) (payment_methods d) of
               None \<Rightarrow> 0 | Some m \<Rightarrow> pm_commission_percent m) / 100))
     \<and> rp_net_amount row = round_double (amount - rp_commission_amount row)
     \<and> \<bar>rp_commission_amount row + rp_net_amount row - rp_amount row\<bar>
         \<le> max (\<bar>amount - rp_commission_amount row\<bar> / 2 ^ 53) (1 / 2 ^ 1075)"
proof -
  define c where "c = round_double (amount * round_double
           ((case find (\<lambda>m. pm_id m = payment_method_id) (payment_methods d) of
               None \<Rightarrow> 0 | Some m \<Rightarrow> pm_commission_percent m) / 100))"
  have "\<bar>c + round_double (amount - c) - amount\<bar> = \<bar>round_double (amount - c) - (amount - c)\<bar>"
    by (simp add: algebra_simps)
  also have "\<dots> \<le> max (\<bar>amount - c\<bar> / 2 ^ 53) (1 / 2 ^ 1075)"
    by (rule round_double_error)
  finally have "\<bar>c + round_double (amount - c) - amount\<bar>
      \<le> max (\<bar>amount - c\<bar> / 2 ^ 53) (1 / 2 ^ 1075)" .
  then show ?thesis
    unfolding c_def by (simp add: add_report_payment_def Let_def split: option.splits)
qed

theorem commission_and_net_add_up_within_rounding_witness:
  "\<exists>row. report_payments (snd (add_report_payment example_percent_db 1 1 2
            (6124895493223875 / 36028797018963968))) = [row]
     \<and> rp_amount row = 6124895493223875 / 36028797018963968
     \<and> rp_commission_amount row = 244995819728955 / 72057594037927936
     \<and> rp_net_amount row = 3001198791679699 / 18014398509481984
     \<and> \<bar>rp_commission_amount row + rp_net_amount row - rp_amount row\<bar> \<le> 1 / 2 ^ 55"
proof -
  have q: "round_double (2 / 100) = 5764607523034235 / 288230376151711744"
    by code_simp
  have c: "round_double (6124895493223875 / 36028797018963968
             * (5764607523034235 / 288230376151711744))
           = 244995819728955 / 72057594037927936"
    by code_simp
  have n: "round_double (6124895493223875 / 36028797018963968
             - 244995819728955 / 72057594037927936)
           = 3001198791679699 / 18014398509481984"
    by code_simp
  have pct: "(case find (\<lambda>m. pm_id m = 1) (payment_methods example_percent_db) of
                None \<Rightarrow> 0 | Some m \<Rightarrow> pm_commission_percent m) = 2"
    by (simp add: example_percent_db_def)
  have r: "report_payments example_percent_db = []"
    by (simp add: example_percent_db_def init_database_def)
  from commission_and_net_add_up_within_rounding
    [of example_percent_db 1 1 2 "6124895493223875 / 36028797018963968", unfolded pct r q c]
  obtain row where row:
    "report_payments (snd (add_report_payment example_percent_db 1 1 2
            (6124895493223875 / 36028797018963968))) = [] @ [row]"
    "rp_amount row = 6124895493223875 / 36028797018963968"
    "rp_commission_amount row = 244995819728955 / 72057594037927936"
    "rp_net_amount row =
       round_double (6124895493223875 / 36028797018963968 - rp_commission_amount row)"
    "\<bar>rp_commission_amount row + rp_net_amount row - rp_amount row\<bar>
       \<le> max (\<bar>6124895493223875 / 36028797018963968 - rp_commission_amount row\<bar> / 2 ^ 53)
           (1 / 2 ^ 1075)"
    by blast
  from row(3,4) n have net: "rp_net_amount row = 3001198791679699 / 18014398509481984"
    by (simp only:)
  have "max (\<bar>6124895493223875 / 36028797018963968 - 244995819728955 / 72057594037927936\<bar>
          / 2 ^ 53) (1 / 2 ^ 1075) \<le> (1 / 2 ^ 55 :: real)"
    by simp
  with row(5) have "\<bar>rp_commission_amount row + rp_net_amount row - rp_amount row\<bar> \<le> 1 / 2 ^ 55"
    unfolding row(3) by linarith
  with row(1,2,3) net show ?thesis
    by (intro exI [of _ row]) simp
qed

end
